theory Spec2Isabelle
  imports Complex_Main
begin

section \<open>The Dark Forest client's game objects: data model\<close>

text \<open>
  This theory embeds \<^verbatim>\<open>src/Backend/GameLogic/GameObjects.ts\<close> (the class
  \<^verbatim>\<open>GameObjects\<close> and the functions of \<^verbatim>\<open>ArrivalUtils\<close> that follow it in the
  same file) and states the properties of the specification over that embedding.

  Conventions of the embedding.
  \<^item> A JavaScript \<^verbatim>\<open>number\<close> is a \<^typ>\<open>real\<close>: arithmetic is exact, and there is
    no \<^verbatim>\<open>Infinity\<close> or \<^verbatim>\<open>NaN\<close>. A quotient with divisor zero is therefore outside
    the model; statements that depend on the value of a quotient say that its divisor
    is not zero.
  \<^item> An object that the source mutates in place is passed in and returned updated.
  \<^item> \<^verbatim>\<open>Date.now()\<close> is an argument \<open>now\<close> (milliseconds).
  \<^item> An optional field is an \<^typ>\<open>'a option\<close>; a thrown \<^verbatim>\<open>Error\<close> is the left
    summand of a sum type.
  \<^item> Functions and enum encodings that the file imports from packages outside the
    repository are taken as parameters, collected in the record \<open>Externals\<close>.
\<close>

type_synonym EthAddress = string
type_synonym LocationId = string
type_synonym ArtifactId = string
type_synonym VoyageId = string

text \<open>A transaction intent is only stored and compared by the code in scope; it is
  represented by its \<^verbatim>\<open>actionId\<close>.\<close>
type_synonym TxIntent = string

text \<open>World coordinates \<^verbatim>\<open>{x, y}\<close>.\<close>
type_synonym WorldCoords = "int \<times> int"

datatype SpaceType = NEBULA | SPACE | DEEP_SPACE | DEAD_SPACE

datatype PlanetType = PLANET | SILVER_MINE | RUINS | TRADING_POST | SILVER_BANK

text \<open>Only two members of \<^verbatim>\<open>ArtifactType\<close> are named in the source.\<close>
datatype ArtifactType = Wormhole | PhotoidCannon | OtherArtifactType nat

record WorldLocation =
  coords :: WorldCoords
  hash :: LocationId
  perlin :: real
  biomebase :: real

record RevealedLocation = WorldLocation +
  revealer :: EthAddress

record Wormhole =
  from' :: LocationId
  to' :: LocationId

record Upgrade =
  energyCapMultiplier :: real
  energyGroMultiplier :: real
  rangeMultiplier :: real
  speedMultiplier :: real
  defMultiplier :: real

record Artifact =
  id' :: ArtifactId
  artifactType :: ArtifactType
  currentOwner :: EthAddress
  onPlanetId :: "LocationId option"
  wormholeTo :: "LocationId option"
  lastActivated :: real
  timeDelayedUpgrade :: Upgrade

record QueuedArrival =
  eventId :: VoyageId
  player :: EthAddress
  toPlanet :: LocationId
  energyArriving :: real
  silverMoved :: real
  artifactId :: "ArtifactId option"
  arrivalTime :: real

text \<open>The fields of \<^verbatim>\<open>Planet\<close> that the source file reads or writes. The upgrade
  state is the triple \<^verbatim>\<open>[0, 0, 0]\<close> of \<^verbatim>\<open>defaultPlanetFromLocation\<close>;
  \<open>silverSpent = None\<close> stands for the \<^verbatim>\<open>NaN\<close> that \<^verbatim>\<open>calculateSilverSpent\<close>
  produces when it reads past the end of its cost table.\<close>
record Planet =
  locationId :: LocationId
  perlin :: real
  spaceType :: SpaceType
  owner :: EthAddress
  hatLevel :: real
  bonus :: "bool \<times> bool \<times> bool \<times> bool \<times> bool"
  planetLevel :: nat
  planetType :: PlanetType
  isHomePlanet :: bool
  energyCap :: real
  energyGrowth :: real
  silverCap :: real
  silverGrowth :: real
  range' :: real
  speed :: real
  defense :: real
  energy :: real
  silver :: real
  lastUpdated :: real
  upgradeState :: "nat \<times> nat \<times> nat"
  unconfirmedReveal :: "TxIntent option"
  unconfirmedDepartures :: "TxIntent list"
  unconfirmedUpgrades :: "TxIntent list"
  unconfirmedBuyHats :: "TxIntent list"
  unconfirmedPlanetTransfers :: "TxIntent list"
  unconfirmedFindArtifact :: "TxIntent option"
  unconfirmedDepositArtifact :: "TxIntent option"
  unconfirmedWithdrawArtifact :: "TxIntent option"
  unconfirmedActivateArtifact :: "TxIntent option"
  unconfirmedDeactivateArtifact :: "TxIntent option"
  unconfirmedWithdrawSilver :: "TxIntent option"
  unconfirmedProspectPlanet :: "TxIntent option"
  unconfirmedClearEmoji :: bool
  unconfirmedAddEmoji :: bool
  loadingServerState :: bool
  needsServerRefresh :: bool
  lastLoadedServerState :: "real option"
  emojiBobAnimation :: "nat option"
  emojiZoopAnimation :: "nat option"
  emojiZoopOutAnimation :: "nat option"
  messages :: "string list option"
  silverSpent :: "real option"
  prospectedBlockNumber :: "real option"
  heldArtifactIds :: "ArtifactId list"
  destroyed :: bool
  isInContract :: bool
  syncedWithContract :: bool
  coordsRevealed :: bool
  revealer :: "EthAddress option"
  claimer :: "EthAddress option"
  location :: "WorldLocation option"
  biome :: "nat option"
  hasTriedFindingArtifact :: bool
  localPhotoidUpgrade :: "Upgrade option"

text \<open>The ruleset constants the source reads. A table indexed by planet level (or by
  space type and level) is the function from the index to the entry.\<close>
record ContractConstants =
  DESTROY_THRESHOLD :: real
  PHOTOID_ACTIVATION_DELAY :: real
  MAX_NATURAL_PLANET_LEVEL :: nat
  TIME_FACTOR_HUNDREDTHS :: real
  PERLIN_THRESHOLD_1 :: real
  PERLIN_THRESHOLD_2 :: real
  PERLIN_THRESHOLD_3 :: real
  BIOME_THRESHOLD_1 :: real
  BIOME_THRESHOLD_2 :: real
  planetLevelThresholds :: "nat \<Rightarrow> int"
  PLANET_TYPE_WEIGHTS :: "SpaceType \<Rightarrow> nat \<Rightarrow> real list"
  defaultPopulationCap :: "nat \<Rightarrow> real"
  defaultPopulationGrowth :: "nat \<Rightarrow> real"
  defaultRange :: "nat \<Rightarrow> real"
  defaultSpeed :: "nat \<Rightarrow> real"
  defaultDefense :: "nat \<Rightarrow> real"
  defaultSilverCap :: "nat \<Rightarrow> real"
  defaultSilverGrowth :: "nat \<Rightarrow> real"
  defaultBarbarianPercentage :: "nat \<Rightarrow> real"

text \<open>What the file imports from outside the repository: \<^verbatim>\<open>isActivated\<close>
  (\<^verbatim>\<open>ArtifactUtils\<close>), \<^verbatim>\<open>getBytesFromHex\<close> and \<^verbatim>\<open>bonusFromHex\<close>
  (\<^verbatim>\<open>@darkforest_eth/hexgen\<close>), the level bounds of \<^verbatim>\<open>@darkforest_eth/constants\<close>,
  and the numeric encodings of the enums \<^verbatim>\<open>PlanetType\<close>, \<^verbatim>\<open>SpaceType\<close> and
  \<^verbatim>\<open>Biome\<close> (the source casts an index to a planet type and multiplies a space
  type by three).\<close>
record Externals =
  isActivated :: "Artifact \<Rightarrow> bool"
  getBytesFromHex :: "LocationId \<Rightarrow> nat \<Rightarrow> nat \<Rightarrow> int"
  bonusFromHex :: "LocationId \<Rightarrow> bool \<times> bool \<times> bool \<times> bool \<times> bool"
  MIN_PLANET_LEVEL :: nat
  MAX_PLANET_LEVEL :: nat
  planetTypeOfNumber :: "nat \<Rightarrow> PlanetType"
  numberOfSpaceType :: "SpaceType \<Rightarrow> nat"
  Biome_CORRUPTED :: nat

text \<open>Modelled from the spec: the constant \<^verbatim>\<open>EMPTY_ADDRESS\<close> of
  \<^verbatim>\<open>@darkforest_eth/constants\<close> is not in the sources; it is the "no owner"
  sentinel, the zero address.\<close>
definition EMPTY_ADDRESS :: EthAddress where
  "EMPTY_ADDRESS = ''0x0000000000000000000000000000000000000000''"

text \<open>Modelled from the spec: the constant \<^verbatim>\<open>CONTRACT_PRECISION\<close> of
  \<^verbatim>\<open>@darkforest_eth/constants\<close> is not in the sources; the specification's
  scenarios fix it to 1000.\<close>
definition CONTRACT_PRECISION :: real where
  "CONTRACT_PRECISION = 1000"

text \<open>Modelled from the spec: \<^verbatim>\<open>hasOwner\<close> of \<^verbatim>\<open>Backend/Utils/Utils\<close> is not in
  the sources; a territory is unowned when its owner is the empty-address sentinel.\<close>
definition hasOwner :: "Planet \<Rightarrow> bool" where
  "hasOwner planet = (owner planet \<noteq> EMPTY_ADDRESS)"

text \<open>JavaScript truthiness of an optional string: \<^verbatim>\<open>undefined\<close> and the empty
  string are falsy.\<close>
fun truthy :: "string option \<Rightarrow> bool" where
  "truthy None = False"
| "truthy (Some s) = (s \<noteq> [])"

section \<open>ArrivalUtils: extrapolation and arrival resolution\<close>

definition getSilverOverTime :: "Planet \<Rightarrow> real \<Rightarrow> real \<Rightarrow> real" where
  "getSilverOverTime planet startTimeMillis endTimeMillis =
     (if \<not> hasOwner planet then silver planet
      else if silver planet > silverCap planet then silverCap planet
      else let timeElapsed = endTimeMillis / 1000 - startTimeMillis / 1000
           in min (timeElapsed * silverGrowth planet + silver planet) (silverCap planet))"

definition getEnergyAtTime :: "Planet \<Rightarrow> real \<Rightarrow> real" where
  "getEnergyAtTime planet atTimeMillis =
     (if energy planet = 0 then 0
      else if \<not> hasOwner planet then energy planet
      else if planetType planet = SILVER_BANK \<and> energy planet > energyCap planet
        then energyCap planet
      else let timeElapsed = atTimeMillis / 1000 - lastUpdated planet;
               denominator =
                 exp ((- 4 * energyGrowth planet * timeElapsed) / energyCap planet)
                   * (energyCap planet / energy planet - 1) + 1
           in energyCap planet / denominator)"

definition applyUpgrade :: "Planet \<Rightarrow> Upgrade \<Rightarrow> bool \<Rightarrow> Planet" where
  "applyUpgrade planet upgrade unApply =
     (if unApply then
        (let p1 = planet\<lparr>speed := speed planet / (energyCapMultiplier upgrade / 100)\<rparr>;
             p2 = p1\<lparr>energyGrowth := energyGrowth p1 / (energyGroMultiplier upgrade / 100)\<rparr>;
             p3 = p2\<lparr>range' := range' p2 / (rangeMultiplier upgrade / 100)\<rparr>;
             p4 = p3\<lparr>speed := speed p3 / (speedMultiplier upgrade / 100)\<rparr>
         in p4\<lparr>defense := defense p4 / (defMultiplier upgrade / 100)\<rparr>)
      else
        (let p1 = planet\<lparr>speed := speed planet * (energyCapMultiplier upgrade / 100)\<rparr>;
             p2 = p1\<lparr>energyGrowth := energyGrowth p1 * (energyGroMultiplier upgrade / 100)\<rparr>;
             p3 = p2\<lparr>range' := range' p2 * (rangeMultiplier upgrade / 100)\<rparr>;
             p4 = p3\<lparr>speed := speed p3 * (speedMultiplier upgrade / 100)\<rparr>
         in p4\<lparr>defense := defense p4 * (defMultiplier upgrade / 100)\<rparr>))"

text \<open>The predicate of \<^verbatim>\<open>planetArtifacts.find\<close> in \<^verbatim>\<open>updatePlanetToTime\<close>.\<close>
definition isActivePhotoid :: "Externals \<Rightarrow> ContractConstants \<Rightarrow> real \<Rightarrow> Artifact \<Rightarrow> bool" where
  "isActivePhotoid ext contractConstants atTimeMillis a =
     (let photoidActivationTime = PHOTOID_ACTIVATION_DELAY contractConstants * 1000
      in artifactType a = PhotoidCannon \<and> isActivated ext a
         \<and> atTimeMillis - lastActivated a * 1000 \<ge> photoidActivationTime)"

text \<open>\<^verbatim>\<open>updatePlanetToTime\<close> mutates the planet; the model returns it. The callback
  \<^verbatim>\<open>setPlanet\<close> (by default a no-op) is applied by the caller that passes one.\<close>
definition updatePlanetToTime ::
  "Externals \<Rightarrow> Planet \<Rightarrow> Artifact list \<Rightarrow> real \<Rightarrow> ContractConstants \<Rightarrow> Planet" where
  "updatePlanetToTime ext planet planetArtifacts atTimeMillis contractConstants =
     (if atTimeMillis < lastUpdated planet * 1000 then planet
      else
        let p1 = planet\<lparr>silver := getSilverOverTime planet (lastUpdated planet * 1000) atTimeMillis\<rparr>;
            p2 = p1\<lparr>energy := getEnergyAtTime p1 atTimeMillis\<rparr>;
            p3 = p2\<lparr>lastUpdated := atTimeMillis / 1000\<rparr>
        in case find (isActivePhotoid ext contractConstants atTimeMillis) planetArtifacts of
             None \<Rightarrow> p3
           | Some activePhotoid \<Rightarrow>
               (if localPhotoidUpgrade p3 = None
                then applyUpgrade
                       (p3\<lparr>localPhotoidUpgrade := Some (timeDelayedUpgrade activePhotoid)\<rparr>)
                       (timeDelayedUpgrade activePhotoid) False
                else p3))"

datatype Error = WrongToPlanet LocationId | TypeError

record PlanetDiff =
  previous :: Planet
  current :: Planet
  arrival :: QueuedArrival

text \<open>The fixed-point quotient of the attack branch:
  \<^verbatim>\<open>Math.floor((energyArriving * CONTRACT_PRECISION * 100) / defense) / CONTRACT_PRECISION\<close>.\<close>
definition effectiveDamage :: "real \<Rightarrow> real \<Rightarrow> real" where
  "effectiveDamage energyArriving' defense' =
     of_int \<lfloor>(energyArriving' * CONTRACT_PRECISION * 100) / defense'\<rfloor> / CONTRACT_PRECISION"

text \<open>The energy part of \<^verbatim>\<open>arrive\<close> (\<^verbatim>\<open>// apply energy\<close>), on the planet already
  brought current; \<open>prevPlanet\<close> is the deep copy taken before.\<close>
definition applyEnergy :: "Planet \<Rightarrow> Planet \<Rightarrow> QueuedArrival \<Rightarrow> ContractConstants \<Rightarrow> Planet" where
  "applyEnergy prevPlanet planet arrival' contractConstants =
     (if player arrival' \<noteq> owner planet then
        (if energy planet > effectiveDamage (energyArriving arrival') (defense planet)
         then planet\<lparr>energy := energy planet
                        - effectiveDamage (energyArriving arrival') (defense planet)\<rparr>
         else
           let p1 = (if owner prevPlanet \<noteq> EMPTY_ADDRESS \<and> DESTROY_THRESHOLD contractConstants > 0
                     then (if effectiveDamage (energyArriving arrival') (defense planet)
                                > energy planet * DESTROY_THRESHOLD contractConstants
                           then planet\<lparr>destroyed := True\<rparr> else planet)
                     else planet);
               p2 = p1\<lparr>owner := player arrival'\<rparr>
           in p2\<lparr>energy := energyArriving arrival'
                    - of_int \<lfloor>(energy p2 * CONTRACT_PRECISION * defense p2) / 100\<rfloor>
                        / CONTRACT_PRECISION\<rparr>)
      else planet\<lparr>energy := energy planet + energyArriving arrival'\<rparr>)"

definition arrive ::
  "Externals \<Rightarrow> Planet \<Rightarrow> Artifact list \<Rightarrow> QueuedArrival \<Rightarrow> ContractConstants
     \<Rightarrow> Error + PlanetDiff" where
  "arrive ext planet artifactsOnPlanet arrival' contractConstants =
     (if locationId planet \<noteq> toPlanet arrival' then Inl (WrongToPlanet (locationId planet))
      else
        let p0 = updatePlanetToTime ext planet artifactsOnPlanet
                   (arrivalTime arrival' * 1000) contractConstants;
            prevPlanet = p0
        in if destroyed p0 then Inr \<lparr>previous = p0, current = p0, arrival = arrival'\<rparr>
           else
             let p1 = applyEnergy prevPlanet p0 arrival' contractConstants;
                 p2 = (if planetType p1 = SILVER_BANK \<and> energy p1 > energyCap p1
                       then p1\<lparr>energy := energyCap p1\<rparr> else p1);
                 p3 = (if silver p2 + silverMoved arrival' > silverCap p2
                       then p2\<lparr>silver := silverCap p2\<rparr>
                       else p2\<lparr>silver := silver p2 + silverMoved arrival'\<rparr>);
                 p4 = (if truthy (artifactId arrival')
                       then p3\<lparr>heldArtifactIds := heldArtifactIds p3 @ [the (artifactId arrival')]\<rparr>
                       else p3)
             in Inr \<lparr>previous = prevPlanet, current = p4, arrival = arrival'\<rparr>)"

section \<open>GameObjects: the entity store\<close>

record ArrivalWithTimer =
  arrivalData :: QueuedArrival
  timer :: nat

text \<open>What the store publishes on its four \<^verbatim>\<open>Monomitter\<close>s, and what it asks the
  \<^verbatim>\<open>NotificationManager\<close> to show.\<close>
datatype Event =
  PlanetUpdated LocationId | MyPlanetsUpdated | ArtifactUpdated ArtifactId | MyArtifactsUpdated

datatype Notification =
  NotifyPlanetCanUpgrade LocationId | NotifyPlanetDestroyed LocationId
  | NotifyPlanetConquered LocationId | NotifyPlanetLost LocationId
  | NotifyPlanetAttacked LocationId

text \<open>
  The fields of the class. The owned-subset maps \<^verbatim>\<open>myPlanets\<close> and
  \<^verbatim>\<open>myArtifacts\<close> hold the very objects of the canonical maps and are represented by
  their key sets. \<^verbatim>\<open>coordsToLocation\<close> is keyed by the coordinates that the key string
  \<^verbatim>\<open>`${x},${y}`\<close> spells out. The collaborators the store writes to are part of the
  state as far as the store drives them: \<open>layeredMap\<close> lists the calls of
  \<^verbatim>\<open>insertPlanet\<close>, \<open>pendingTimers\<close> maps each handle returned by \<^verbatim>\<open>setTimeout\<close> and
  not yet passed to \<^verbatim>\<open>clearTimeout\<close> to the planet id and arrival its callback will
  resolve (a callback runs only while its handle is pending), \<open>nextTimer\<close> is the next
  handle, and \<open>published\<close>, \<open>notifications\<close> list what was emitted.
\<close>
record GameObjects =
  address :: "EthAddress option"
  planets :: "LocationId \<rightharpoonup> Planet"
  myPlanets :: "LocationId set"
  artifacts :: "ArtifactId \<rightharpoonup> Artifact"
  myArtifacts :: "ArtifactId set"
  wormholes :: "ArtifactId \<rightharpoonup> Wormhole"
  touchedPlanetIds :: "LocationId set"
  arrivals :: "VoyageId \<rightharpoonup> ArrivalWithTimer"
  planetArrivalIds :: "LocationId \<rightharpoonup> VoyageId list"
  planetLocationMap :: "LocationId \<rightharpoonup> WorldLocation"
  revealedLocations :: "LocationId \<rightharpoonup> RevealedLocation"
  coordsToLocation :: "WorldCoords \<rightharpoonup> WorldLocation"
  contractConstants :: ContractConstants
  layeredMap :: "(WorldLocation \<times> nat) list"
  pendingTimers :: "nat \<rightharpoonup> LocationId \<times> QueuedArrival"
  nextTimer :: nat
  published :: "Event list"
  notifications :: "Notification list"

text \<open>Modelled from the spec: \<^verbatim>\<open>setObjectSyncState\<close> of
  \<^verbatim>\<open>Frontend/Utils/EmitterUtils\<close> is not in the sources. It updates the canonical map,
  updates the owned-subset map by comparing the entity's owner against the
  locally-authenticated player, and publishes "this id changed"; the result's last
  component tells whether the owned subset changed, in which case the whole owned-subset
  map is republished.\<close>
definition setObjectSyncState ::
  "('k \<rightharpoonup> 'v) \<Rightarrow> 'k set \<Rightarrow> EthAddress option \<Rightarrow> ('v \<Rightarrow> 'k) \<Rightarrow> ('v \<Rightarrow> EthAddress) \<Rightarrow> 'v
     \<Rightarrow> ('k \<rightharpoonup> 'v) \<times> 'k set \<times> bool" where
  "setObjectSyncState objectMap myObjectMap address' getId getOwner obj =
     (if address' = Some (getOwner obj)
      then (objectMap(getId obj \<mapsto> obj), insert (getId obj) myObjectMap, True)
      else if getId obj \<in> myObjectMap
      then (objectMap(getId obj \<mapsto> obj), myObjectMap - {getId obj}, True)
      else (objectMap(getId obj \<mapsto> obj), myObjectMap, False))"

definition setPlanet :: "Planet \<Rightarrow> GameObjects \<Rightarrow> GameObjects" where
  "setPlanet planet s =
     (let s1 = (case location planet of
                  Some loc \<Rightarrow> s\<lparr>layeredMap := layeredMap s @ [(loc, planetLevel planet)]\<rparr>
                | None \<Rightarrow> s)
      in case setObjectSyncState (planets s1) (myPlanets s1) (address s1) locationId owner planet of
           (objectMap, myObjectMap, myObjListChanged) \<Rightarrow>
             s1\<lparr>planets := objectMap, myPlanets := myObjectMap,
                published := published s1 @ [PlanetUpdated (locationId planet)]
                               @ (if myObjListChanged then [MyPlanetsUpdated] else [])\<rparr>)"

definition setArtifact :: "Externals \<Rightarrow> Artifact \<Rightarrow> GameObjects \<Rightarrow> GameObjects" where
  "setArtifact ext artifact s =
     (let s1 = (if artifactType artifact = Wormhole \<and> truthy (onPlanetId artifact)
                then (if truthy (wormholeTo artifact) \<and> isActivated ext artifact
                      then s\<lparr>wormholes := (wormholes s)(id' artifact \<mapsto>
                                \<lparr>from' = the (onPlanetId artifact), to' = the (wormholeTo artifact)\<rparr>)\<rparr>
                      else s\<lparr>wormholes := (wormholes s)(id' artifact := None)\<rparr>)
                else s)
      in case setObjectSyncState (artifacts s1) (myArtifacts s1) (address s1) id' currentOwner artifact of
           (objectMap, myObjectMap, myObjListChanged) \<Rightarrow>
             s1\<lparr>artifacts := objectMap, myArtifacts := myObjectMap,
                published := published s1 @ [ArtifactUpdated (id' artifact)]
                               @ (if myObjListChanged then [MyArtifactsUpdated] else [])\<rparr>)"

definition getPlanetArtifacts :: "GameObjects \<Rightarrow> LocationId \<Rightarrow> Artifact list" where
  "getPlanetArtifacts s planetId =
     List.map_filter (artifacts s)
       (case planets s planetId of Some planet \<Rightarrow> heldArtifactIds planet | None \<Rightarrow> [])"

subsection \<open>Procedural generation\<close>

definition spaceTypeFromPerlin :: "ContractConstants \<Rightarrow> real \<Rightarrow> SpaceType" where
  "spaceTypeFromPerlin constants perlin' =
     (if perlin' < PERLIN_THRESHOLD_1 constants then NEBULA
      else if perlin' < PERLIN_THRESHOLD_2 constants then SPACE
      else if perlin' < PERLIN_THRESHOLD_3 constants then DEEP_SPACE
      else DEAD_SPACE)"

text \<open>The loop \<^verbatim>\<open>for (type = MAX_PLANET_LEVEL; type >= MIN_PLANET_LEVEL; type--)\<close> of
  \<^verbatim>\<open>planetLevelFromHexPerlin\<close>, from \<open>type\<close> downwards: the first level whose threshold
  exceeds \<open>levelBigInt\<close>, if there is one.\<close>
fun levelLoop :: "(nat \<Rightarrow> int) \<Rightarrow> int \<Rightarrow> nat \<Rightarrow> nat \<Rightarrow> nat option" where
  "levelLoop thresholds levelBigInt minLevel 0 =
     (if 0 < minLevel then None
      else if levelBigInt < thresholds 0 then Some 0 else None)"
| "levelLoop thresholds levelBigInt minLevel (Suc type) =
     (if Suc type < minLevel then None
      else if levelBigInt < thresholds (Suc type) then Some (Suc type)
      else levelLoop thresholds levelBigInt minLevel type)"

definition planetLevelFromHexPerlin ::
  "Externals \<Rightarrow> ContractConstants \<Rightarrow> LocationId \<Rightarrow> real \<Rightarrow> nat" where
  "planetLevelFromHexPerlin ext constants hex perlin' =
     (let spaceType' = spaceTypeFromPerlin constants perlin';
          levelBigInt = getBytesFromHex ext hex 4 7;
          ret0 = (case levelLoop (planetLevelThresholds constants) levelBigInt
                         (MIN_PLANET_LEVEL ext) (MAX_PLANET_LEVEL ext) of
                    Some type \<Rightarrow> type
                  | None \<Rightarrow> MIN_PLANET_LEVEL ext);
          ret1 = (if spaceType' = NEBULA \<and> ret0 > 4 then 4 else ret0);
          ret2 = (if spaceType' = SPACE \<and> ret1 > 5 then 5 else ret1)
      in if ret2 > MAX_NATURAL_PLANET_LEVEL constants
         then MAX_NATURAL_PLANET_LEVEL constants else ret2)"

text \<open>The running differences \<^verbatim>\<open>thresholds[i] = thresholds[i - 1] - weights[i]\<close>,
  started from \<^verbatim>\<open>weightSum\<close>.\<close>
fun thresholdsFrom :: "real \<Rightarrow> real list \<Rightarrow> real list" where
  "thresholdsFrom prev [] = []"
| "thresholdsFrom prev (w # ws) = (prev - w) # thresholdsFrom (prev - w) ws"

text \<open>The first index \<open>i\<close> (counted from \<open>i0\<close>) with \<^verbatim>\<open>typeByte >= thresholds[i]\<close>.\<close>
fun firstBucket :: "int \<Rightarrow> int list \<Rightarrow> nat \<Rightarrow> nat option" where
  "firstBucket typeByte [] i0 = None"
| "firstBucket typeByte (t # ts) i0 =
     (if typeByte \<ge> t then Some i0 else firstBucket typeByte ts (Suc i0))"

text \<open>\<^verbatim>\<open>weights.reduce\<close> without an initial value throws a \<^verbatim>\<open>TypeError\<close> on an empty
  array.\<close>
definition planetTypeFromHexPerlin ::
  "Externals \<Rightarrow> ContractConstants \<Rightarrow> LocationId \<Rightarrow> real \<Rightarrow> Error + PlanetType" where
  "planetTypeFromHexPerlin ext constants hex perlin' =
     (let planetLevel' = planetLevelFromHexPerlin ext constants hex perlin';
          spaceType' = spaceTypeFromPerlin constants perlin';
          weights = PLANET_TYPE_WEIGHTS constants spaceType' planetLevel'
      in case weights of
           [] \<Rightarrow> Inl TypeError
         | w # ws \<Rightarrow>
             let weightSum = foldl (+) w ws;
                 thresholds = map (\<lambda>x. \<lfloor>(x * 256) / weightSum\<rfloor>) (thresholdsFrom weightSum weights);
                 typeByte = getBytesFromHex ext hex 8 9
             in case firstBucket typeByte thresholds 0 of
                  Some i \<Rightarrow> Inr (planetTypeOfNumber ext i)
                | None \<Rightarrow> Inr PLANET)"

definition getBiome :: "Externals \<Rightarrow> ContractConstants \<Rightarrow> WorldLocation \<Rightarrow> nat" where
  "getBiome ext constants loc =
     (let spaceType' = spaceTypeFromPerlin constants (WorldLocation.perlin loc)
      in if spaceType' = DEAD_SPACE then Biome_CORRUPTED ext
         else 3 * numberOfSpaceType ext spaceType'
                + (if biomebase loc < BIOME_THRESHOLD_1 constants then 1
                   else if biomebase loc < BIOME_THRESHOLD_2 constants then 2
                   else 3))"

text \<open>\<^verbatim>\<open>defaultPlanetFromLocation\<close> reads the clock (\<open>now\<close>) and the store's set of
  touched planet ids besides the location and the constants.\<close>
definition defaultPlanetFromLocation ::
  "Externals \<Rightarrow> ContractConstants \<Rightarrow> LocationId set \<Rightarrow> real \<Rightarrow> WorldLocation \<Rightarrow> Error + Planet" where
  "defaultPlanetFromLocation ext constants touched now loc =
     (let perlin' = WorldLocation.perlin loc;
          hex = hash loc;
          planetLevel' = planetLevelFromHexPerlin ext constants hex perlin'
      in case planetTypeFromHexPerlin ext constants hex perlin' of
           Inl e \<Rightarrow> Inl e
         | Inr planetType' \<Rightarrow>
     (let spaceType' = spaceTypeFromPerlin constants perlin'
      in case bonusFromHex ext hex of
           (energyCapBonus, energyGroBonus, rangeBonus, speedBonus, defBonus) \<Rightarrow>
     (let energyCap0 = defaultPopulationCap constants planetLevel';
          energyGro0 = defaultPopulationGrowth constants planetLevel';
          range0 = defaultRange constants planetLevel';
          speed0 = defaultSpeed constants planetLevel';
          defense0 = defaultDefense constants planetLevel';
          silCap0 = defaultSilverCap constants planetLevel';
          silGro0 = (if planetType' = SILVER_MINE
                     then defaultSilverGrowth constants planetLevel' else 0);
          energyCap1 = energyCap0 * (if energyCapBonus then 2 else 1);
          energyGro1 = energyGro0 * (if energyGroBonus then 2 else 1);
          range1 = range0 * (if rangeBonus then 2 else 1);
          speed1 = speed0 * (if speedBonus then 2 else 1);
          defense1 = defense0 * (if defBonus then 2 else 1);
          range2 = (if spaceType' = DEAD_SPACE then range1 * 2
                    else if spaceType' = DEEP_SPACE then range1 * 1.5
                    else if spaceType' = SPACE then range1 * 1.25 else range1);
          speed2 = (if spaceType' = DEAD_SPACE then speed1 * 2
                    else if spaceType' = DEEP_SPACE then speed1 * 1.5
                    else if spaceType' = SPACE then speed1 * 1.25 else speed1);
          energyCap2 = (if spaceType' = DEAD_SPACE then energyCap1 * 2
                        else if spaceType' = DEEP_SPACE then energyCap1 * 1.5
                        else if spaceType' = SPACE then energyCap1 * 1.25 else energyCap1);
          energyGro2 = (if spaceType' = DEAD_SPACE then energyGro1 * 2
                        else if spaceType' = DEEP_SPACE then energyGro1 * 1.5
                        else if spaceType' = SPACE then energyGro1 * 1.25 else energyGro1);
          silCap2 = (if spaceType' = DEAD_SPACE then silCap0 * 2
                     else if spaceType' = DEEP_SPACE then silCap0 * 1.5
                     else if spaceType' = SPACE then silCap0 * 1.25 else silCap0);
          silGro2 = (if spaceType' = DEAD_SPACE then silGro0 * 2
                     else if spaceType' = DEEP_SPACE then silGro0 * 1.5
                     else if spaceType' = SPACE then silGro0 * 1.25 else silGro0);
          defense2 = (if spaceType' = DEAD_SPACE then of_int \<lfloor>(defense1 * 3) / 20\<rfloor>
                      else if spaceType' = DEEP_SPACE then defense1 * 0.25
                      else if spaceType' = SPACE then defense1 * 0.5 else defense1);
          silCap3 = (if planetType' = SILVER_MINE then silCap2 * 2
                     else if planetType' = SILVER_BANK then silCap2 * 10
                     else if planetType' = TRADING_POST then silCap2 * 2 else silCap2);
          defense3 = (if planetType' = SILVER_MINE then defense2 * 0.5
                      else if planetType' = SILVER_BANK then defense2
                      else if planetType' = TRADING_POST then defense2 * 0.5 else defense2);
          speed3 = (if planetType' = SILVER_MINE then speed2
                    else if planetType' = SILVER_BANK then speed2 / 2 else speed2);
          energyGro3 = (if planetType' = SILVER_MINE then energyGro2
                        else if planetType' = SILVER_BANK then 0 else energyGro2);
          energyCap3 = (if planetType' = SILVER_MINE then energyCap2
                        else if planetType' = SILVER_BANK then energyCap2 * 5 else energyCap2);
          pirates0 = (energyCap3 * defaultBarbarianPercentage constants planetLevel') / 100;
          pirates = (if spaceType' = DEAD_SPACE then pirates0 * 20
                     else if spaceType' = DEEP_SPACE then pirates0 * 10
                     else if spaceType' = SPACE then pirates0 * 4 else pirates0);
          silver' = (if planetType' = SILVER_MINE then silCap3 / 2 else 0);
          speed4 = speed3 * (TIME_FACTOR_HUNDREDTHS constants / 100);
          energyGro4 = energyGro3 * (TIME_FACTOR_HUNDREDTHS constants / 100);
          silGro4 = silGro2 * (TIME_FACTOR_HUNDREDTHS constants / 100);
          biome' = getBiome ext constants loc
      in Inr \<lparr>locationId = hex, perlin = perlin', spaceType = spaceType', owner = EMPTY_ADDRESS,
              hatLevel = 0, bonus = bonusFromHex ext hex,
              planetLevel = planetLevel', planetType = planetType', isHomePlanet = False,
              energyCap = energyCap3, energyGrowth = energyGro4,
              silverCap = silCap3, silverGrowth = silGro4,
              range' = range2, speed = speed4, defense = defense3,
              energy = pirates, silver = silver',
              lastUpdated = of_int \<lfloor>now / 1000\<rfloor>,
              upgradeState = (0, 0, 0),
              unconfirmedReveal = None,
              unconfirmedDepartures = [], unconfirmedUpgrades = [], unconfirmedBuyHats = [],
              unconfirmedPlanetTransfers = [],
              unconfirmedFindArtifact = None, unconfirmedDepositArtifact = None,
              unconfirmedWithdrawArtifact = None, unconfirmedActivateArtifact = None,
              unconfirmedDeactivateArtifact = None, unconfirmedWithdrawSilver = None,
              unconfirmedProspectPlanet = None,
              unconfirmedClearEmoji = False, unconfirmedAddEmoji = False,
              loadingServerState = False, needsServerRefresh = False,
              lastLoadedServerState = None, emojiBobAnimation = None,
              emojiZoopAnimation = None, emojiZoopOutAnimation = None, messages = None,
              silverSpent = Some 0, prospectedBlockNumber = None, heldArtifactIds = [],
              destroyed = False, isInContract = (hex \<in> touched), syncedWithContract = False,
              coordsRevealed = False, revealer = None, claimer = None,
              location = Some loc, biome = Some biome', hasTriedFindingArtifact = False,
              localPhotoidUpgrade = None\<rparr>)))"

subsection \<open>Reading and materialising planets\<close>

text \<open>\<^verbatim>\<open>updatePlanetIfStale\<close> is given a planet object of the canonical map; \<open>key\<close> is
  the key it is stored under. The object is updated in place and then passed to
  \<^verbatim>\<open>setPlanet\<close>, unless \<^verbatim>\<open>updatePlanetToTime\<close> returns early.\<close>
definition updatePlanetIfStale ::
  "Externals \<Rightarrow> real \<Rightarrow> LocationId \<Rightarrow> Planet \<Rightarrow> GameObjects \<Rightarrow> Planet \<times> GameObjects" where
  "updatePlanetIfStale ext now key planet s =
     (if now / 1000 - lastUpdated planet > 1 then
        (if now < lastUpdated planet * 1000 then (planet, s)
         else
           let planet' = updatePlanetToTime ext planet (getPlanetArtifacts s (locationId planet))
                           now (contractConstants s)
           in (planet', setPlanet planet' (s\<lparr>planets := (planets s)(key \<mapsto> planet')\<rparr>)))
      else (planet, s))"

definition getPlanetWithLocation ::
  "Externals \<Rightarrow> real \<Rightarrow> WorldLocation \<Rightarrow> GameObjects \<Rightarrow> Error + Planet \<times> GameObjects" where
  "getPlanetWithLocation ext now loc s =
     (case planets s (hash loc) of
        Some planet \<Rightarrow> Inr (updatePlanetIfStale ext now (hash loc) planet s)
      | None \<Rightarrow>
          (case defaultPlanetFromLocation ext (contractConstants s) (touchedPlanetIds s) now loc of
             Inl e \<Rightarrow> Inl e
           | Inr defaultPlanet \<Rightarrow> Inr (defaultPlanet, setPlanet defaultPlanet s)))"

definition getPlanetWithId ::
  "Externals \<Rightarrow> real \<Rightarrow> LocationId \<Rightarrow> bool \<Rightarrow> GameObjects
     \<Rightarrow> Error + Planet option \<times> GameObjects" where
  "getPlanetWithId ext now planetId updateIfStale s =
     (case planets s planetId of
        Some planet \<Rightarrow>
          (if updateIfStale
           then (case updatePlanetIfStale ext now planetId planet s of
                   (planet', s') \<Rightarrow> Inr (Some planet', s'))
           else Inr (Some planet, s))
      | None \<Rightarrow>
          (case planetLocationMap s planetId of
             None \<Rightarrow> Inr (None, s)
           | Some loc \<Rightarrow>
               (case getPlanetWithLocation ext now loc s of
                  Inl e \<Rightarrow> Inl e
                | Inr (planet, s') \<Rightarrow> Inr (Some planet, s'))))"

definition markLocationRevealed :: "RevealedLocation \<Rightarrow> GameObjects \<Rightarrow> GameObjects" where
  "markLocationRevealed revealedLocation s =
     s\<lparr>revealedLocations := (revealedLocations s)(hash revealedLocation \<mapsto> revealedLocation)\<rparr>"

text \<open>In \<^verbatim>\<open>addPlanetLocation\<close> the level given to the layered map is
  \<^verbatim>\<open>getPlanetWithId(hash, false)?.planetLevel || planetLevelFromHexPerlin(...)\<close>: a
  level 0 is falsy.\<close>
definition addPlanetLocation ::
  "Externals \<Rightarrow> real \<Rightarrow> WorldLocation \<Rightarrow> GameObjects \<Rightarrow> Error + GameObjects" where
  "addPlanetLocation ext now planetLocation s =
     (case getPlanetWithId ext now (hash planetLocation) False s of
        Inl e \<Rightarrow> Inl e
      | Inr (known, s1) \<Rightarrow>
          let fromHex = planetLevelFromHexPerlin ext (contractConstants s1) (hash planetLocation)
                          (WorldLocation.perlin planetLocation);
              level = (case known of
                         Some planet \<Rightarrow> (if planetLevel planet \<noteq> 0 then planetLevel planet else fromHex)
                       | None \<Rightarrow> fromHex);
              s2 = s1\<lparr>layeredMap := layeredMap s1 @ [(planetLocation, level)]\<rparr>;
              s3 = s2\<lparr>planetLocationMap := (planetLocationMap s2)(hash planetLocation \<mapsto> planetLocation)\<rparr>;
              s4 = (if coordsToLocation s3 (coords planetLocation) = None
                    then s3\<lparr>coordsToLocation := (coordsToLocation s3)(coords planetLocation \<mapsto> planetLocation)\<rparr>
                    else s3)
          in case (if planets s4 (hash planetLocation) = None
                   then (case defaultPlanetFromLocation ext (contractConstants s4)
                                 (touchedPlanetIds s4) now planetLocation of
                           Inl e \<Rightarrow> Inl e
                         | Inr defaultPlanet \<Rightarrow> Inr (setPlanet defaultPlanet s4))
                   else Inr s4) of
               Inl e \<Rightarrow> Inl e
             | Inr s5 \<Rightarrow>
                 (case planets s5 (hash planetLocation) of
                    Some planet \<Rightarrow>
                      Inr (s5\<lparr>planets := (planets s5)(hash planetLocation \<mapsto>
                              planet\<lparr>location := Some planetLocation,
                                     biome := Some (getBiome ext (contractConstants s5) planetLocation)\<rparr>)\<rparr>)
                  | None \<Rightarrow> Inr s5))"

subsection \<open>Arrivals\<close>

definition getSilverNeeded :: "Planet \<Rightarrow> real" where
  "getSilverNeeded planet =
     (case upgradeState planet of
        (a, b, c) \<Rightarrow> (real (a + b + c) + 1) * 0.2 * silverCap planet)"

definition planetCanUpgrade :: "Planet \<Rightarrow> bool" where
  "planetCanUpgrade planet =
     (case upgradeState planet of
        (a, b, c) \<Rightarrow>
          let totalRank = a + b + c
          in if spaceType planet = NEBULA \<and> totalRank \<ge> 3 then False
             else if spaceType planet = SPACE \<and> totalRank \<ge> 4 then False
             else if spaceType planet = DEEP_SPACE \<and> totalRank \<ge> 5 then False
             else if spaceType planet = DEAD_SPACE \<and> totalRank \<ge> 5 then False
             else planetLevel planet \<noteq> 0 \<and> planetType planet = PLANET
                  \<and> silver planet \<ge> getSilverNeeded planet)"

text \<open>The calls of the notification manager that \<^verbatim>\<open>emitArrivalNotifications\<close> makes,
  in order. \<^verbatim>\<open>ethers.constants.AddressZero\<close> is the zero address, \<open>EMPTY_ADDRESS\<close>.\<close>
definition emitArrivalNotifications :: "EthAddress option \<Rightarrow> PlanetDiff \<Rightarrow> Notification list" where
  "emitArrivalNotifications address' diff =
     (if \<not> planetCanUpgrade (previous diff) \<and> planetCanUpgrade (current diff)
         \<and> Some (owner (current diff)) = address'
      then [NotifyPlanetCanUpgrade (locationId (current diff))] else [])
     @ (if Some (owner (previous diff)) \<noteq> address' \<and> owner (previous diff) \<noteq> EMPTY_ADDRESS
           \<and> Some (owner (current diff)) = address'
        then (if \<not> destroyed (previous diff) \<and> destroyed (current diff)
              then [NotifyPlanetDestroyed (locationId (current diff))]
              else [NotifyPlanetConquered (locationId (current diff))])
        else [])
     @ (if Some (owner (previous diff)) = address' \<and> Some (owner (current diff)) \<noteq> address'
        then [NotifyPlanetLost (locationId (current diff))] else [])
     @ (if Some (player (arrival diff)) \<noteq> address' \<and> Some (owner (current diff)) = address'
        then [NotifyPlanetAttacked (locationId (current diff))] else [])"

definition calculateSilverSpent :: "Planet \<Rightarrow> real option" where
  "calculateSilverSpent planet =
     (case upgradeState planet of
        (a, b, c) \<Rightarrow>
          let upgradeCosts = [20, 40, 60, 80, 100];
              totalUpgrades = a + b + c
          in if totalUpgrades > length upgradeCosts then None
             else Some ((sum_list (take totalUpgrades upgradeCosts) / 100) * silverCap planet))"

definition updateScore :: "LocationId \<Rightarrow> GameObjects \<Rightarrow> GameObjects" where
  "updateScore planetId s =
     (case planets s planetId of
        None \<Rightarrow> s
      | Some planet \<Rightarrow>
          s\<lparr>planets := (planets s)(planetId \<mapsto> planet\<lparr>silverSpent := calculateSilverSpent planet\<rparr>)\<rparr>)"

text \<open>The loop of \<^verbatim>\<open>processArrivalsForPlanet\<close>. \<open>planet\<close> is the object fetched from
  the canonical map before the loop; \<^verbatim>\<open>arrive\<close> mutates it in place, so the map entry
  changes with it. An arrival in the past is applied at once (an error thrown by
  \<^verbatim>\<open>arrive\<close> is caught and logged); a future one gets a timer.\<close>
fun processArrivalsLoop ::
  "Externals \<Rightarrow> real \<Rightarrow> LocationId \<Rightarrow> QueuedArrival list
     \<Rightarrow> Planet \<times> GameObjects \<times> ArrivalWithTimer list
     \<Rightarrow> Planet \<times> GameObjects \<times> ArrivalWithTimer list" where
  "processArrivalsLoop ext now planetId [] acc = acc"
| "processArrivalsLoop ext now planetId (arrival' # rest) (planet, s, arrivalsWithTimers) =
     processArrivalsLoop ext now planetId rest
       (if now / 1000 - arrivalTime arrival' > 0 then
          (case arrive ext planet (getPlanetArtifacts s (locationId planet)) arrival'
                  (contractConstants s) of
             Inl e \<Rightarrow> (planet, s, arrivalsWithTimers)
           | Inr diff \<Rightarrow>
               (current diff,
                s\<lparr>planets := (planets s)(planetId \<mapsto> current diff),
                  notifications := notifications s @ emitArrivalNotifications (address s) diff\<rparr>,
                arrivalsWithTimers))
        else
          (planet,
           s\<lparr>pendingTimers := (pendingTimers s)(nextTimer s \<mapsto> (planetId, arrival')),
             nextTimer := Suc (nextTimer s)\<rparr>,
           arrivalsWithTimers @ [\<lparr>arrivalData = arrival', timer = nextTimer s\<rparr>]))"

definition processArrivalsForPlanet ::
  "Externals \<Rightarrow> real \<Rightarrow> LocationId \<Rightarrow> QueuedArrival list \<Rightarrow> GameObjects
     \<Rightarrow> ArrivalWithTimer list \<times> GameObjects" where
  "processArrivalsForPlanet ext now planetId arrivals' s =
     (case planets s planetId of
        None \<Rightarrow> ([], s)
      | Some planet \<Rightarrow>
          (case processArrivalsLoop ext now planetId (sort_key arrivalTime arrivals') (planet, s, []) of
             (planet', s', arrivalsWithTimers) \<Rightarrow> (arrivalsWithTimers, updateScore planetId s')))"

text \<open>The loop of \<^verbatim>\<open>clearOldArrivals\<close> over the planet's stored arrival ids.\<close>
fun clearArrivalIds :: "VoyageId list \<Rightarrow> GameObjects \<Rightarrow> GameObjects" where
  "clearArrivalIds [] s = s"
| "clearArrivalIds (arrivalId # rest) s =
     clearArrivalIds rest
       (let s1 = (case arrivals s arrivalId of
                    Some arrivalWithTimer \<Rightarrow>
                      s\<lparr>pendingTimers := (pendingTimers s)(timer arrivalWithTimer := None)\<rparr>
                  | None \<Rightarrow> s)
        in s1\<lparr>arrivals := (arrivals s1)(arrivalId := None)\<rparr>)"

definition clearOldArrivals :: "Planet \<Rightarrow> GameObjects \<Rightarrow> GameObjects" where
  "clearOldArrivals planet s =
     (let planetId = locationId planet;
          s1 = (case planetArrivalIds s planetId of
                  Some arrivalIds \<Rightarrow> clearArrivalIds arrivalIds s
                | None \<Rightarrow> s)
      in s1\<lparr>planetArrivalIds := (planetArrivalIds s1)(planetId \<mapsto> [])\<rparr>)"

text \<open>The loop of \<^verbatim>\<open>replacePlanetFromContractData\<close> that installs the new arrivals.\<close>
fun installArrivals :: "LocationId \<Rightarrow> ArrivalWithTimer list \<Rightarrow> GameObjects \<Rightarrow> GameObjects" where
  "installArrivals planetId [] s = s"
| "installArrivals planetId (awt # rest) s =
     installArrivals planetId rest
       (let arrivalId = eventId (arrivalData awt);
            s1 = s\<lparr>arrivals := (arrivals s)(arrivalId \<mapsto> awt)\<rparr>
        in case planetArrivalIds s1 planetId of
             Some arrivalIds \<Rightarrow>
               s1\<lparr>planetArrivalIds := (planetArrivalIds s1)(planetId \<mapsto> arrivalIds @ [arrivalId])\<rparr>
           | None \<Rightarrow> s1)"

subsection \<open>Reconciliation with contract data\<close>

text \<open>The first part of \<^verbatim>\<open>replacePlanetFromContractData\<close>: the fields the incoming
  planet takes over from the local copy.\<close>
definition keepLocalFields :: "Planet \<Rightarrow> Planet \<Rightarrow> Planet" where
  "keepLocalFields localPlanet planet =
     planet\<lparr>unconfirmedReveal := unconfirmedReveal localPlanet,
            unconfirmedDepartures := unconfirmedDepartures localPlanet,
            unconfirmedUpgrades := unconfirmedUpgrades localPlanet,
            unconfirmedBuyHats := unconfirmedBuyHats localPlanet,
            unconfirmedPlanetTransfers := unconfirmedPlanetTransfers localPlanet,
            unconfirmedFindArtifact := unconfirmedFindArtifact localPlanet,
            unconfirmedDepositArtifact := unconfirmedDepositArtifact localPlanet,
            unconfirmedWithdrawArtifact := unconfirmedWithdrawArtifact localPlanet,
            unconfirmedActivateArtifact := unconfirmedActivateArtifact localPlanet,
            unconfirmedDeactivateArtifact := unconfirmedDeactivateArtifact localPlanet,
            unconfirmedWithdrawSilver := unconfirmedWithdrawSilver localPlanet,
            unconfirmedProspectPlanet := unconfirmedProspectPlanet localPlanet,
            loadingServerState := loadingServerState localPlanet,
            needsServerRefresh := needsServerRefresh localPlanet,
            lastLoadedServerState := lastLoadedServerState localPlanet,
            emojiBobAnimation := emojiBobAnimation localPlanet,
            emojiZoopAnimation := emojiZoopAnimation localPlanet,
            emojiZoopOutAnimation := emojiZoopOutAnimation localPlanet,
            messages := messages localPlanet,
            heldArtifactIds := heldArtifactIds localPlanet\<rparr>"

text \<open>The planet that \<^verbatim>\<open>replacePlanetFromContractData\<close> hands to \<^verbatim>\<open>setPlanet\<close>, given
  the local copy and location found in the store (\<open>knownLocation\<close> is the entry of
  \<^verbatim>\<open>planetLocationMap\<close>). A revealed location is used as the \<^verbatim>\<open>WorldLocation\<close> it
  extends.\<close>
definition planetToCommit ::
  "Externals \<Rightarrow> ContractConstants \<Rightarrow> Planet option \<Rightarrow> WorldLocation option \<Rightarrow> Planet
     \<Rightarrow> ArtifactId list option \<Rightarrow> RevealedLocation option \<Rightarrow> EthAddress option \<Rightarrow> Planet" where
  "planetToCommit ext constants localPlanet knownLocation planet updatedArtifactsOnPlanet
       revealedLocation claimerEthAddress =
     (let p1 = (case localPlanet of Some l \<Rightarrow> keepLocalFields l planet | None \<Rightarrow> planet);
          p2 = (case updatedArtifactsOnPlanet of
                  Some ids \<Rightarrow> p1\<lparr>heldArtifactIds := ids\<rparr>
                | None \<Rightarrow> p1);
          loc = (case knownLocation of
                   Some l \<Rightarrow> Some l
                 | None \<Rightarrow> map_option WorldLocation.truncate revealedLocation);
          p3 = (case loc of
                  Some l \<Rightarrow> p2\<lparr>location := Some l, biome := Some (getBiome ext constants l)\<rparr>
                | None \<Rightarrow> p2);
          p4 = (case revealedLocation of
                  Some r \<Rightarrow> p3\<lparr>coordsRevealed := True,
                              revealer := Some (RevealedLocation.revealer r)\<rparr>
                | None \<Rightarrow> p3)
      in if truthy claimerEthAddress then p4\<lparr>claimer := claimerEthAddress\<rparr> else p4)"

definition replacePlanetFromContractData ::
  "Externals \<Rightarrow> real \<Rightarrow> Planet \<Rightarrow> QueuedArrival list option \<Rightarrow> ArtifactId list option
     \<Rightarrow> RevealedLocation option \<Rightarrow> EthAddress option \<Rightarrow> GameObjects \<Rightarrow> Error + GameObjects" where
  "replacePlanetFromContractData ext now planet updatedArrivals updatedArtifactsOnPlanet
       revealedLocation claimerEthAddress s =
     (let s1 = s\<lparr>touchedPlanetIds := insert (locationId planet) (touchedPlanetIds s)\<rparr>;
          planet' = planetToCommit ext (contractConstants s1) (planets s1 (locationId planet))
                      (planetLocationMap s1 (locationId planet)) planet updatedArtifactsOnPlanet
                      revealedLocation claimerEthAddress
      in case (case revealedLocation of
                 Some r \<Rightarrow> addPlanetLocation ext now (WorldLocation.truncate r)
                             (markLocationRevealed r s1)
               | None \<Rightarrow> Inr s1) of
           Inl e \<Rightarrow> Inl e
         | Inr s2 \<Rightarrow>
             let s3 = setPlanet planet' s2;
                 s4 = (case updatedArrivals of
                         Some arrivals' \<Rightarrow>
                           (case processArrivalsForPlanet ext now (locationId planet') arrivals'
                                   (clearOldArrivals planet' s3) of
                              (updatedAwts, s') \<Rightarrow> installArrivals (locationId planet') updatedAwts s')
                       | None \<Rightarrow> s3)
             in Inr (updateScore (locationId planet') s4))"

section \<open>Observations and operation sequences used by the statements\<close>

text \<open>The planet a resolution leaves behind, when \<^verbatim>\<open>arrive\<close> does not throw.\<close>
definition resultPlanet :: "Error + PlanetDiff \<Rightarrow> Planet option" where
  "resultPlanet r = (case r of Inl e \<Rightarrow> None | Inr d \<Rightarrow> Some (current d))"

text \<open>The planet stored under an id after a store operation, when it does not throw.\<close>
definition storedPlanet :: "Error + GameObjects \<Rightarrow> LocationId \<Rightarrow> Planet option" where
  "storedPlanet r planetId = (case r of Inl e \<Rightarrow> None | Inr s \<Rightarrow> planets s planetId)"

text \<open>The twelve per-action unconfirmed slots of a planet that
  \<^verbatim>\<open>replacePlanetFromContractData\<close> copies from the local planet.\<close>
definition pendingSlots ::
  "Planet \<Rightarrow> TxIntent option \<times> TxIntent list \<times> TxIntent list \<times> TxIntent list \<times> TxIntent list
     \<times> TxIntent option \<times> TxIntent option \<times> TxIntent option \<times> TxIntent option
     \<times> TxIntent option \<times> TxIntent option \<times> TxIntent option" where
  "pendingSlots planet =
     (unconfirmedReveal planet, unconfirmedDepartures planet, unconfirmedUpgrades planet,
      unconfirmedBuyHats planet, unconfirmedPlanetTransfers planet,
      unconfirmedFindArtifact planet, unconfirmedDepositArtifact planet,
      unconfirmedWithdrawArtifact planet, unconfirmedActivateArtifact planet,
      unconfirmedDeactivateArtifact planet, unconfirmedWithdrawSilver planet,
      unconfirmedProspectPlanet planet)"

text \<open>The fields of a planet that come from the contract and that
  \<^verbatim>\<open>replacePlanetFromContractData\<close> itself neither copies from the local planet nor
  sets from its other arguments.\<close>
definition ledgerFields ::
  "Planet \<Rightarrow> (LocationId \<times> real \<times> SpaceType \<times> EthAddress \<times> real
      \<times> (bool \<times> bool \<times> bool \<times> bool \<times> bool) \<times> nat \<times> PlanetType \<times> bool)
     \<times> (real \<times> real \<times> real \<times> real \<times> real \<times> real \<times> real \<times> real \<times> real \<times> real)
     \<times> ((nat \<times> nat \<times> nat) \<times> real option \<times> bool \<times> bool \<times> bool \<times> bool)" where
  "ledgerFields planet =
     ((locationId planet, Planet.perlin planet, spaceType planet, owner planet, hatLevel planet,
       bonus planet, planetLevel planet, planetType planet, isHomePlanet planet),
      (energyCap planet, energyGrowth planet, silverCap planet, silverGrowth planet,
       range' planet, speed planet, defense planet, energy planet, silver planet,
       lastUpdated planet),
      (upgradeState planet, prospectedBlockNumber planet, destroyed planet,
       isInContract planet, syncedWithContract planet, hasTriedFindingArtifact planet))"

text \<open>A sequence of calls of \<^verbatim>\<open>updatePlanetToTime\<close> on one planet, each with its
  artifact list and target time.\<close>
definition bringCurrentSeq ::
  "Externals \<Rightarrow> ContractConstants \<Rightarrow> (Artifact list \<times> real) list \<Rightarrow> Planet \<Rightarrow> Planet" where
  "bringCurrentSeq ext constants calls planet =
     fold (\<lambda>call p. updatePlanetToTime ext p (fst call) (snd call) constants) calls planet"

text \<open>A sequence of extrapolations and arrival resolutions on one planet. A resolution
  that throws (wrong destination) does so before it touches the planet.\<close>
datatype Operation = BringCurrent "Artifact list" real | Arrive "Artifact list" QueuedArrival

definition applyOperation :: "Externals \<Rightarrow> ContractConstants \<Rightarrow> Planet \<Rightarrow> Operation \<Rightarrow> Planet" where
  "applyOperation ext constants planet operation =
     (case operation of
        BringCurrent planetArtifacts atTimeMillis \<Rightarrow>
          updatePlanetToTime ext planet planetArtifacts atTimeMillis constants
      | Arrive artifactsOnPlanet arrival' \<Rightarrow>
          (case arrive ext planet artifactsOnPlanet arrival' constants of
             Inl e \<Rightarrow> planet
           | Inr d \<Rightarrow> current d))"

fun statesAfter :: "Externals \<Rightarrow> ContractConstants \<Rightarrow> Planet \<Rightarrow> Operation list \<Rightarrow> Planet list" where
  "statesAfter ext constants planet [] = []"
| "statesAfter ext constants planet (operation # operations) =
     applyOperation ext constants planet operation
       # statesAfter ext constants
           (applyOperation ext constants planet operation) operations"

definition planetWellFormed :: "Planet \<Rightarrow> bool" where
  "planetWellFormed planet =
     (0 \<le> energy planet \<and> 0 \<le> silver planet \<and> silver planet \<le> silverCap planet
      \<and> 0 < energyCap planet \<and> 0 \<le> energyGrowth planet \<and> 0 \<le> silverGrowth planet
      \<and> 0 < defense planet)"

definition artifactsWellFormed :: "Artifact list \<Rightarrow> bool" where
  "artifactsWellFormed as =
     list_all (\<lambda>a. 0 \<le> energyGroMultiplier (timeDelayedUpgrade a)
                   \<and> 0 < defMultiplier (timeDelayedUpgrade a)) as"

fun operationWellFormed :: "Operation \<Rightarrow> bool" where
  "operationWellFormed (BringCurrent planetArtifacts atTimeMillis) = artifactsWellFormed planetArtifacts"
| "operationWellFormed (Arrive artifactsOnPlanet arrival') =
     (artifactsWellFormed artifactsOnPlanet \<and> 0 \<le> energyArriving arrival' \<and> 0 \<le> silverMoved arrival')"

text \<open>The bounds of the cap invariant that the code maintains.\<close>
definition withinBounds :: "Planet \<Rightarrow> bool" where
  "withinBounds planet =
     (0 \<le> energy planet \<and> 0 \<le> silver planet \<and> silver planet \<le> silverCap planet)"

text \<open>The conquest energy as the specification's sentence gives it (claim C1): the
  defender's prior energy divided by the defense.\<close>
definition specConquestEnergy :: "real \<Rightarrow> real \<Rightarrow> real \<Rightarrow> real" where
  "specConquestEnergy energyArriving' priorEnergy defense' =
     energyArriving' - of_int \<lfloor>(priorEnergy * CONTRACT_PRECISION * 100) / defense'\<rfloor> / CONTRACT_PRECISION"

section \<open>Concrete inputs\<close>

text \<open>The territory of the specification's scenarios: tier 3, nebula, owner A, energy
  50 of 100, defense 100, growth 10.\<close>
definition exampleUpgrade :: Upgrade where
  "exampleUpgrade = \<lparr>energyCapMultiplier = 120, energyGroMultiplier = 120, rangeMultiplier = 125,
     speedMultiplier = 175, defMultiplier = 120\<rparr>"

text \<open>An instance of the external functions: bytes \<open>s\<close> to \<open>e\<close> of a hexadecimal
  string as a number, no innate bonus, an artifact activated once \<open>lastActivated\<close> is
  positive, levels 0 to 9, and the enums numbered in their order of declaration.\<close>
definition hexDigitValue :: "char \<Rightarrow> int" where
  "hexDigitValue c =
     (case map_of (zip ''0123456789abcdef'' [0, 1, 2, 3, 4, 5, 6, 7, 8, 9, 10, 11, 12, 13, 14, 15]) c of
        Some v \<Rightarrow> v
      | None \<Rightarrow> 0)"

definition hexValue :: "string \<Rightarrow> int" where
  "hexValue str = foldl (\<lambda>acc c. 16 * acc + hexDigitValue c) 0 str"

definition exampleExternals :: Externals where
  "exampleExternals = \<lparr>isActivated = (\<lambda>a. lastActivated a > 0),
     getBytesFromHex = (\<lambda>h s e. hexValue (take (2 * e - 2 * s) (drop (2 * s) h))),
     bonusFromHex = (\<lambda>h. (False, False, False, False, False)),
     MIN_PLANET_LEVEL = 0, MAX_PLANET_LEVEL = 9,
     planetTypeOfNumber = (\<lambda>n. [PLANET, SILVER_MINE, RUINS, TRADING_POST, SILVER_BANK] ! (n mod 5)),
     numberOfSpaceType = (\<lambda>s. case s of NEBULA \<Rightarrow> 0 | SPACE \<Rightarrow> 1 | DEEP_SPACE \<Rightarrow> 2 | DEAD_SPACE \<Rightarrow> 3),
     Biome_CORRUPTED = 10\<rparr>"

definition exampleConstants :: ContractConstants where
  "exampleConstants = \<lparr>DESTROY_THRESHOLD = 0, PHOTOID_ACTIVATION_DELAY = 14400,
     MAX_NATURAL_PLANET_LEVEL = 9, TIME_FACTOR_HUNDREDTHS = 100,
     PERLIN_THRESHOLD_1 = 14, PERLIN_THRESHOLD_2 = 15, PERLIN_THRESHOLD_3 = 19,
     BIOME_THRESHOLD_1 = 15, BIOME_THRESHOLD_2 = 17,
     planetLevelThresholds = (\<lambda>l. 16777216 div 4 ^ l),
     PLANET_TYPE_WEIGHTS = (\<lambda>s l. [13, 2, 0, 1, 0]),
     defaultPopulationCap = (\<lambda>l. 100000 * 2 ^ l),
     defaultPopulationGrowth = (\<lambda>l. 417 * 2 ^ l),
     defaultRange = (\<lambda>l. 99 + 78 * real l),
     defaultSpeed = (\<lambda>l. 75),
     defaultDefense = (\<lambda>l. 400 - 50 * real (min l 7)),
     defaultSilverCap = (\<lambda>l. 100000 * real l),
     defaultSilverGrowth = (\<lambda>l. 56 * real l),
     defaultBarbarianPercentage = (\<lambda>l. real l)\<rparr>"

definition examplePlanet :: Planet where
  "examplePlanet = \<lparr>locationId = ''0000a1'', perlin = 10, spaceType = NEBULA, owner = ''0xA'',
     hatLevel = 0, bonus = (False, False, False, False, False), planetLevel = 3,
     planetType = PLANET, isHomePlanet = False, energyCap = 100, energyGrowth = 10,
     silverCap = 1000, silverGrowth = 0, range' = 300, speed = 75, defense = 100,
     energy = 50, silver = 0, lastUpdated = 0, upgradeState = (0, 0, 0),
     unconfirmedReveal = None, unconfirmedDepartures = [], unconfirmedUpgrades = [],
     unconfirmedBuyHats = [], unconfirmedPlanetTransfers = [], unconfirmedFindArtifact = None,
     unconfirmedDepositArtifact = None, unconfirmedWithdrawArtifact = None,
     unconfirmedActivateArtifact = None, unconfirmedDeactivateArtifact = None,
     unconfirmedWithdrawSilver = None, unconfirmedProspectPlanet = None,
     unconfirmedClearEmoji = False, unconfirmedAddEmoji = False, loadingServerState = False,
     needsServerRefresh = False, lastLoadedServerState = None, emojiBobAnimation = None,
     emojiZoopAnimation = None, emojiZoopOutAnimation = None, messages = None,
     silverSpent = Some 0, prospectedBlockNumber = None, heldArtifactIds = [],
     destroyed = False, isInContract = True, syncedWithContract = True, coordsRevealed = False,
     revealer = None, claimer = None, location = None, biome = None,
     hasTriedFindingArtifact = False, localPhotoidUpgrade = None\<rparr>"

definition exampleArrival :: QueuedArrival where
  "exampleArrival = \<lparr>eventId = ''1'', player = ''0xB'', toPlanet = ''0000a1'',
     energyArriving = 40, silverMoved = 0, artifactId = None, arrivalTime = 0\<rparr>"

definition examplePhotoid :: Artifact where
  "examplePhotoid = \<lparr>id' = ''art1'', artifactType = PhotoidCannon, currentOwner = ''0xA'',
     onPlanetId = Some ''0000a1'', wormholeTo = None, lastActivated = 1,
     timeDelayedUpgrade = exampleUpgrade\<rparr>"

definition exampleLocation :: WorldLocation where
  "exampleLocation = \<lparr>coords = (10, 20), hash = ''00000000001a2b3c9d00000000000000'',
     perlin = 10, biomebase = 16\<rparr>"

definition exampleStore :: GameObjects where
  "exampleStore = \<lparr>address = Some ''0xA'', planets = Map.empty, myPlanets = {},
     artifacts = Map.empty, myArtifacts = {}, wormholes = Map.empty, touchedPlanetIds = {},
     arrivals = Map.empty, planetArrivalIds = Map.empty, planetLocationMap = Map.empty,
     revealedLocations = Map.empty, coordsToLocation = Map.empty,
     contractConstants = exampleConstants, layeredMap = [], pendingTimers = Map.empty,
     nextTimer = 0, published = [], notifications = []\<rparr>"

definition exampleWormhole :: Artifact where
  "exampleWormhole = \<lparr>id' = ''w1'', artifactType = Wormhole, currentOwner = ''0xA'',
     onPlanetId = Some ''0000a1'', wormholeTo = Some ''0000b2'', lastActivated = 5,
     timeDelayedUpgrade = exampleUpgrade\<rparr>"

definition exampleLocalPlanet :: Planet where
  "exampleLocalPlanet = examplePlanet\<lparr>unconfirmedReveal := Some ''tx1'',
     unconfirmedDepartures := [''tx2''], unconfirmedAddEmoji := True,
     heldArtifactIds := [''art1'']\<rparr>"

definition exampleStoreWithPlanet :: GameObjects where
  "exampleStoreWithPlanet = exampleStore\<lparr>
     planets := [''0000a1'' \<mapsto> exampleLocalPlanet],
     arrivals := [''1'' \<mapsto> \<lparr>arrivalData = exampleArrival\<lparr>arrivalTime := 500\<rparr>, timer = 0\<rparr>],
     planetArrivalIds := [''0000a1'' \<mapsto> [''1'']],
     pendingTimers := [0 \<mapsto> (''0000a1'', exampleArrival\<lparr>arrivalTime := 500\<rparr>)],
     nextTimer := 1\<rparr>"

section \<open>Properties of extrapolation and arrival resolution\<close>

lemma applyUpgrade_frame:
  "lastUpdated (applyUpgrade p u b) = lastUpdated p"
  "energyCap (applyUpgrade p u b) = energyCap p"
  "owner (applyUpgrade p u b) = owner p"
  "energy (applyUpgrade p u b) = energy p"
  "silver (applyUpgrade p u b) = silver p"
  "silverCap (applyUpgrade p u b) = silverCap p"
  "silverGrowth (applyUpgrade p u b) = silverGrowth p"
  "destroyed (applyUpgrade p u b) = destroyed p"
  "planetType (applyUpgrade p u b) = planetType p"
  "locationId (applyUpgrade p u b) = locationId p"
  by (simp_all add: applyUpgrade_def Let_def)

lemma updatePlanetToTime_lastUpdated:
  "lastUpdated (updatePlanetToTime ext p arts t cc) =
     (if t < lastUpdated p * 1000 then lastUpdated p else t / 1000)"
  by (simp add: updatePlanetToTime_def Let_def applyUpgrade_frame split: option.splits)

lemma updatePlanetToTime_frame:
  "owner (updatePlanetToTime ext p arts t cc) = owner p"
  "destroyed (updatePlanetToTime ext p arts t cc) = destroyed p"
  "energyCap (updatePlanetToTime ext p arts t cc) = energyCap p"
  "silverCap (updatePlanetToTime ext p arts t cc) = silverCap p"
  "planetType (updatePlanetToTime ext p arts t cc) = planetType p"
  "locationId (updatePlanetToTime ext p arts t cc) = locationId p"
  by (simp_all add: updatePlanetToTime_def Let_def applyUpgrade_frame split: option.splits)

lemma updatePlanetToTime_mono: "lastUpdated p \<le> lastUpdated (updatePlanetToTime ext p arts t cc)"
  by (simp add: updatePlanetToTime_lastUpdated)

lemma bringCurrentSeq_mono: "lastUpdated p \<le> lastUpdated (bringCurrentSeq ext cc calls p)"
proof (induction calls arbitrary: p)
  case Nil
  show ?case by (simp add: bringCurrentSeq_def)
next
  case (Cons c cs)
  have "lastUpdated p \<le> lastUpdated (updatePlanetToTime ext p (fst c) (snd c) cc)"
    by (rule updatePlanetToTime_mono)
  also have "\<dots> \<le> lastUpdated (bringCurrentSeq ext cc cs (updatePlanetToTime ext p (fst c) (snd c) cc))"
    by (rule Cons.IH)
  finally show ?case by (simp add: bringCurrentSeq_def)
qed

lemma floor_mul_div_le:
  fixes a :: real
  shows "of_int \<lfloor>a * 1000\<rfloor> / 1000 \<le> a"
proof -
  have "of_int \<lfloor>a * 1000\<rfloor> \<le> a * 1000" by (rule of_int_floor_le)
  then show ?thesis by simp
qed

lemma logistic_denominator_pos:
  fixes c e k :: real
  assumes "0 < c" "0 < e" "k \<le> 0"
  shows "0 < exp k * (c / e - 1) + 1"
proof -
  have k1: "exp k \<le> 1" using assms(3) by simp
  have k0: "0 < exp k" by simp
  have "0 < c / e" using assms by simp
  then have "- 1 < c / e - 1" by simp
  then have "exp k * (- 1) < exp k * (c / e - 1)"
    using k0 by (simp only: mult_less_cancel_left_pos)
  then have "- 1 < exp k * (c / e - 1)" using k1 by linarith
  then show ?thesis by linarith
qed

lemma logistic_denominator_ge_1:
  fixes c e k :: real
  assumes "0 < e" "e \<le> c"
  shows "1 \<le> exp k * (c / e - 1) + 1"
proof -
  have "1 \<le> c / e" using assms by simp
  then have "0 \<le> exp k * (c / e - 1)" by simp
  then show ?thesis by linarith
qed

lemma getEnergyAtTime_nonneg:
  assumes wf: "planetWellFormed p" and t: "lastUpdated p * 1000 \<le> t"
  shows "0 \<le> getEnergyAtTime p t"
proof -
  have c: "0 < energyCap p" and e: "0 \<le> energy p" and g: "0 \<le> energyGrowth p"
    using wf by (simp_all add: planetWellFormed_def)
  have te: "0 \<le> t / 1000 - lastUpdated p" using t by simp
  show ?thesis
  proof (cases "energy p = 0")
    case True
    then show ?thesis by (simp add: getEnergyAtTime_def)
  next
    case False
    then have e': "0 < energy p" using e by simp
    have "0 \<le> 4 * energyGrowth p * (t / 1000 - lastUpdated p)" using g te by simp
    then have k: "(- 4 * energyGrowth p * (t / 1000 - lastUpdated p)) / energyCap p \<le> 0"
      using c by (simp add: divide_nonpos_pos)
    have "0 < exp ((- 4 * energyGrowth p * (t / 1000 - lastUpdated p)) / energyCap p)
                * (energyCap p / energy p - 1) + 1"
      by (rule logistic_denominator_pos[OF c e' k])
    then have "0 \<le> energyCap p / (exp ((- 4 * energyGrowth p * (t / 1000 - lastUpdated p)) / energyCap p)
                * (energyCap p / energy p - 1) + 1)"
      using c by simp
    then show ?thesis using e c by (simp add: getEnergyAtTime_def Let_def)
  qed
qed

lemma getEnergyAtTime_le_cap:
  assumes wf: "planetWellFormed p" and le: "energy p \<le> energyCap p"
  shows "getEnergyAtTime p t \<le> energyCap p"
proof -
  have c: "0 < energyCap p" and e: "0 \<le> energy p"
    using wf by (simp_all add: planetWellFormed_def)
  show ?thesis
  proof (cases "energy p = 0")
    case True
    then show ?thesis using c by (simp add: getEnergyAtTime_def)
  next
    case False
    then have e': "0 < energy p" using e by simp
    have d: "1 \<le> exp ((- 4 * energyGrowth p * (t / 1000 - lastUpdated p)) / energyCap p)
                * (energyCap p / energy p - 1) + 1"
      by (rule logistic_denominator_ge_1[OF e' le])
    have "energyCap p / (exp ((- 4 * energyGrowth p * (t / 1000 - lastUpdated p)) / energyCap p)
                * (energyCap p / energy p - 1) + 1) \<le> energyCap p / 1"
      using c d by (intro divide_left_mono) simp_all
    then show ?thesis using le by (simp add: getEnergyAtTime_def Let_def)
  qed
qed

lemma getSilverOverTime_bounds:
  assumes wf: "planetWellFormed p" and t: "lastUpdated p * 1000 \<le> t"
  shows "0 \<le> getSilverOverTime p (lastUpdated p * 1000) t"
    and "getSilverOverTime p (lastUpdated p * 1000) t \<le> silverCap p"
proof -
  have s: "0 \<le> silver p" "silver p \<le> silverCap p" and g: "0 \<le> silverGrowth p"
    using wf by (simp_all add: planetWellFormed_def)
  have te: "0 \<le> t / 1000 - lastUpdated p" using t by simp
  have "0 \<le> (t / 1000 - lastUpdated p) * silverGrowth p" using te g by simp
  then have "0 \<le> (t / 1000 - lastUpdated p) * silverGrowth p + silver p" using s by linarith
  then show "0 \<le> getSilverOverTime p (lastUpdated p * 1000) t"
    using s by (simp add: getSilverOverTime_def Let_def)
  show "getSilverOverTime p (lastUpdated p * 1000) t \<le> silverCap p"
    using s by (simp add: getSilverOverTime_def Let_def)
qed


lemma applyUpgrade_wellFormed:
  assumes "planetWellFormed p" "0 \<le> energyGroMultiplier u" "0 < defMultiplier u"
  shows "planetWellFormed (applyUpgrade p u False)"
  using assms by (simp add: planetWellFormed_def applyUpgrade_def Let_def)

lemma find_artifactsWellFormed:
  assumes "artifactsWellFormed as" "find P as = Some a"
  shows "0 \<le> energyGroMultiplier (timeDelayedUpgrade a) \<and> 0 < defMultiplier (timeDelayedUpgrade a)"
proof -
  from assms(2) have "a \<in> set as" by (auto simp: find_Some_iff)
  with assms(1) show ?thesis by (simp add: artifactsWellFormed_def list_all_iff)
qed

lemma updatePlanetToTime_wellFormed:
  assumes wf: "planetWellFormed p" and as: "artifactsWellFormed arts"
  shows "planetWellFormed (updatePlanetToTime ext p arts t cc)"
proof (cases "t < lastUpdated p * 1000")
  case True
  then show ?thesis using wf by (simp add: updatePlanetToTime_def)
next
  case False
  then have t: "lastUpdated p * 1000 \<le> t" by simp
  define q where "q = p\<lparr>silver := getSilverOverTime p (lastUpdated p * 1000) t,
                         energy := getEnergyAtTime p t, lastUpdated := t / 1000\<rparr>"
  have qwf: "planetWellFormed q"
    using wf getEnergyAtTime_nonneg[OF wf t] getSilverOverTime_bounds[OF wf t]
    by (simp add: q_def planetWellFormed_def)
  have q': "\<And>v. planetWellFormed (q\<lparr>localPhotoidUpgrade := v\<rparr>)"
    using qwf by (simp add: planetWellFormed_def)
  have ge: "getEnergyAtTime (p\<lparr>silver := getSilverOverTime p (lastUpdated p * 1000) t\<rparr>) t
              = getEnergyAtTime p t"
    by (simp add: getEnergyAtTime_def hasOwner_def)
  show ?thesis
  proof (cases "find (isActivePhotoid ext cc t) arts")
    case None
    then show ?thesis using False qwf ge by (simp add: updatePlanetToTime_def Let_def q_def)
  next
    case (Some a)
    from find_artifactsWellFormed[OF as Some]
    have u: "0 \<le> energyGroMultiplier (timeDelayedUpgrade a)" "0 < defMultiplier (timeDelayedUpgrade a)"
      by simp_all
    have "planetWellFormed (applyUpgrade (q\<lparr>localPhotoidUpgrade := Some (timeDelayedUpgrade a)\<rparr>)
             (timeDelayedUpgrade a) False)"
      by (rule applyUpgrade_wellFormed[OF q' u])
    then show ?thesis using False Some qwf ge by (simp add: updatePlanetToTime_def Let_def q_def)
  qed
qed

lemma updatePlanetToTime_energy_le_cap:
  assumes wf: "planetWellFormed p" and le: "energy p \<le> energyCap p"
  shows "energy (updatePlanetToTime ext p arts t cc) \<le> energyCap (updatePlanetToTime ext p arts t cc)"
proof -
  have ge: "getEnergyAtTime (p\<lparr>silver := getSilverOverTime p (lastUpdated p * 1000) t\<rparr>) t
              = getEnergyAtTime p t"
    by (simp add: getEnergyAtTime_def hasOwner_def)
  show ?thesis
    using le getEnergyAtTime_le_cap[OF wf le, of t] ge
    by (simp add: updatePlanetToTime_def Let_def applyUpgrade_frame split: option.splits)
qed

lemma conquest_energy_nonneg:
  fixes e a d :: real
  assumes d: "0 < d" and e: "0 \<le> e"
    and le: "e \<le> effectiveDamage a d"
  shows "0 \<le> a - of_int \<lfloor>(e * CONTRACT_PRECISION * d) / 100\<rfloor> / CONTRACT_PRECISION"
proof -
  have "effectiveDamage a d \<le> (a * 100) / d"
    using floor_mul_div_le[of "(a * 100) / d"]
    by (simp add: effectiveDamage_def CONTRACT_PRECISION_def mult.commute mult.left_commute)
  with le have "e \<le> (a * 100) / d" by linarith
  then have "e * d \<le> a * 100" using d by (simp add: pos_le_divide_eq)
  then have ed: "(e * d) / 100 \<le> a" by simp
  have "of_int \<lfloor>(e * d / 100) * 1000\<rfloor> / 1000 \<le> e * d / 100"
    by (rule floor_mul_div_le)
  then have "of_int \<lfloor>(e * CONTRACT_PRECISION * d) / 100\<rfloor> / CONTRACT_PRECISION \<le> e * d / 100"
    by (simp add: CONTRACT_PRECISION_def mult.commute mult.left_commute)
  with ed show ?thesis by linarith
qed

lemma applyEnergy_wellFormed:
  assumes wf: "planetWellFormed p" and a: "0 \<le> energyArriving arr"
  shows "planetWellFormed (applyEnergy prev p arr cc)"
proof -
  have d: "0 < defense p" and e: "0 \<le> energy p" using wf by (simp_all add: planetWellFormed_def)
  show ?thesis
  proof (cases "player arr \<noteq> owner p")
    case False
    then show ?thesis using wf a by (simp add: applyEnergy_def planetWellFormed_def)
  next
    case attack: True
    show ?thesis
    proof (cases "energy p > effectiveDamage (energyArriving arr) (defense p)")
      case True
      then show ?thesis using wf attack by (simp add: applyEnergy_def planetWellFormed_def)
    next
      case False
      then have le: "energy p \<le> effectiveDamage (energyArriving arr) (defense p)" by simp
      have "0 \<le> energyArriving arr
              - of_int \<lfloor>(energy p * CONTRACT_PRECISION * defense p) / 100\<rfloor> / CONTRACT_PRECISION"
        by (rule conquest_energy_nonneg[OF d e le])
      then show ?thesis using wf attack False
        by (simp add: applyEnergy_def planetWellFormed_def Let_def)
    qed
  qed
qed

lemma arrive_wellFormed:
  assumes wf: "planetWellFormed p" and as: "artifactsWellFormed arts"
    and a: "0 \<le> energyArriving arr" and s: "0 \<le> silverMoved arr"
    and r: "arrive ext p arts arr cc = Inr d"
  shows "planetWellFormed (current d)"
proof -
  define p0 where "p0 = updatePlanetToTime ext p arts (arrivalTime arr * 1000) cc"
  have wf0: "planetWellFormed p0" unfolding p0_def by (rule updatePlanetToTime_wellFormed[OF wf as])
  define p1 where "p1 = applyEnergy p0 p0 arr cc"
  have wf1: "planetWellFormed p1" unfolding p1_def by (rule applyEnergy_wellFormed[OF wf0 a])
  show ?thesis
  proof (cases "destroyed p0")
    case True
    then show ?thesis using r wf0 by (auto simp: arrive_def Let_def p0_def split: if_splits)
  next
    case False
    then show ?thesis using r wf1 s
      by (auto simp: arrive_def Let_def p0_def p1_def planetWellFormed_def split: if_splits)
  qed
qed

lemma applyOperation_wellFormed:
  assumes "planetWellFormed p" "operationWellFormed operation"
  shows "planetWellFormed (applyOperation ext cc p operation)"
proof (cases operation)
  case (BringCurrent arts t)
  then show ?thesis using assms by (simp add: applyOperation_def updatePlanetToTime_wellFormed)
next
  case (Arrive arts arr)
  then show ?thesis using assms
    by (auto simp: applyOperation_def split: sum.splits intro: arrive_wellFormed)
qed

lemma statesAfter_wellFormed:
  assumes "planetWellFormed p" "list_all operationWellFormed operations"
  shows "list_all planetWellFormed (statesAfter ext cc p operations)"
  using assms
proof (induction operations arbitrary: p)
  case Nil
  show ?case by simp
next
  case (Cons operation operations)
  then have "planetWellFormed (applyOperation ext cc p operation)"
    by (simp add: applyOperation_wellFormed)
  with Cons show ?case by simp
qed

lemma arrive_returns:
  assumes "locationId p = toPlanet arr"
  shows "\<exists>d. arrive ext p arts arr cc = Inr d"
  using assms by (simp add: arrive_def Let_def)

lemma arrive_silver_bank_capped:
  assumes "arrive ext p arts arr cc = Inr d" "\<not> destroyed p" "planetType p = SILVER_BANK"
  shows "energy (current d) \<le> energyCap (current d)"
proof -
  have pt: "planetType (applyEnergy prev q arr cc) = planetType q" for prev q
    by (simp add: applyEnergy_def Let_def)
  show ?thesis using assms
    by (auto simp: arrive_def Let_def updatePlanetToTime_frame pt split: if_splits)
qed

section \<open>The claims about extrapolation and arrival resolution\<close>

text \<open>
  Claim C1, as amended. For every arrival resolved against a destination that is not
  already destroyed (and whose defense is not zero), in which the arriving player differs
  from the destination's owner and the destination's energy, brought current to the
  arrival time, does not exceed the fixed-point effective damage
  \<open>floor(energyArriving * CONTRACT_PRECISION * 100 / defense) / CONTRACT_PRECISION\<close>,
  conquest occurs: the owner becomes the arriving player and the energy is set to
  \<open>energyArriving - floor(priorEnergy * CONTRACT_PRECISION * defense / 100) / CONTRACT_PRECISION\<close>
  (the prior energy is multiplied by defense/100, not divided by it), capped at
  \<open>energyCap\<close> when the destination is a \<open>SILVER_BANK\<close>.
\<close>
theorem conquest_sets_owner_and_energy:
  assumes "locationId planet = toPlanet arrival'"
    and "p0 = updatePlanetToTime ext planet artifactsOnPlanet (arrivalTime arrival' * 1000) constants"
    and "\<not> destroyed p0"
    and "defense p0 \<noteq> 0"
    and "player arrival' \<noteq> owner p0"
    and "energy p0 \<le> effectiveDamage (energyArriving arrival') (defense p0)"
  shows "\<exists>d. arrive ext planet artifactsOnPlanet arrival' constants = Inr d
            \<and> previous d = p0
            \<and> owner (current d) = player arrival'
            \<and> energy (current d) =
                (if planetType p0 = SILVER_BANK
                    \<and> energyArriving arrival'
                        - of_int \<lfloor>(energy p0 * CONTRACT_PRECISION * defense p0) / 100\<rfloor> / CONTRACT_PRECISION
                      > energyCap p0
                 then energyCap p0
                 else energyArriving arrival'
                        - of_int \<lfloor>(energy p0 * CONTRACT_PRECISION * defense p0) / 100\<rfloor> / CONTRACT_PRECISION)"
  using assms by (simp add: arrive_def applyEnergy_def Let_def)

text \<open>The specification's scenario (energy 10, attacker 200, defense 100, destroy
  threshold 0): the new owner is B and the new energy is 190.\<close>
theorem conquest_sets_owner_and_energy_witness:
  "\<exists>d. arrive exampleExternals (examplePlanet\<lparr>energy := 10\<rparr>) []
          (exampleArrival\<lparr>energyArriving := 200\<rparr>) exampleConstants = Inr d
       \<and> owner (current d) = ''0xB'' \<and> energy (current d) = 190"
proof -
  define p0 where "p0 = updatePlanetToTime exampleExternals (examplePlanet\<lparr>energy := 10\<rparr>) []
                          (arrivalTime (exampleArrival\<lparr>energyArriving := 200\<rparr>) * 1000) exampleConstants"
  have p0: "p0 = examplePlanet\<lparr>energy := 10\<rparr>"
    by (simp add: p0_def examplePlanet_def exampleArrival_def updatePlanetToTime_def
        getSilverOverTime_def getEnergyAtTime_def hasOwner_def EMPTY_ADDRESS_def Let_def)
  have h1: "locationId (examplePlanet\<lparr>energy := 10\<rparr>) = toPlanet (exampleArrival\<lparr>energyArriving := 200\<rparr>)"
    by (simp add: examplePlanet_def exampleArrival_def)
  have h3: "\<not> destroyed p0" by (simp add: p0 examplePlanet_def)
  have h4: "defense p0 \<noteq> 0" by (simp add: p0 examplePlanet_def)
  have h5: "player (exampleArrival\<lparr>energyArriving := 200\<rparr>) \<noteq> owner p0"
    by (simp add: p0 examplePlanet_def exampleArrival_def)
  have h6: "energy p0 \<le> effectiveDamage (energyArriving (exampleArrival\<lparr>energyArriving := 200\<rparr>)) (defense p0)"
    by (simp add: p0 examplePlanet_def exampleArrival_def effectiveDamage_def CONTRACT_PRECISION_def)
  from conquest_sets_owner_and_energy[OF h1 p0_def h3 h4 h5 h6]
  obtain d where d: "arrive exampleExternals (examplePlanet\<lparr>energy := 10\<rparr>) []
          (exampleArrival\<lparr>energyArriving := 200\<rparr>) exampleConstants = Inr d"
    and o: "owner (current d) = player (exampleArrival\<lparr>energyArriving := 200\<rparr>)"
    and e: "energy (current d) =
                (if planetType p0 = SILVER_BANK
                    \<and> energyArriving (exampleArrival\<lparr>energyArriving := 200\<rparr>)
                        - of_int \<lfloor>(energy p0 * CONTRACT_PRECISION * defense p0) / 100\<rfloor> / CONTRACT_PRECISION
                      > energyCap p0
                 then energyCap p0
                 else energyArriving (exampleArrival\<lparr>energyArriving := 200\<rparr>)
                        - of_int \<lfloor>(energy p0 * CONTRACT_PRECISION * defense p0) / 100\<rfloor> / CONTRACT_PRECISION)"
    by blast
  have o': "owner (current d) = ''0xB''" using o by (simp add: exampleArrival_def)
  have e': "energy (current d) = 190"
    using e by (simp add: p0 examplePlanet_def exampleArrival_def CONTRACT_PRECISION_def)
  from d o' e' show ?thesis by blast
qed

text \<open>Claim C1 as stated fails when the defense is not 100: with energy 10, attacker
  200 and defense 200 the conquest condition holds (10 does not exceed the damage 100),
  the code leaves \<open>200 - floor(10 * 1000 * 200 / 100) / 1000 = 180\<close>, and the claim's
  formula gives \<open>200 - floor(10 * 1000 * 100 / 200) / 1000 = 195\<close>.\<close>
theorem conquest_energy_counterexample:
  "player (exampleArrival\<lparr>energyArriving := 200\<rparr>) \<noteq> owner (examplePlanet\<lparr>energy := 10, defense := 200\<rparr>)
   \<and> energy (updatePlanetToTime exampleExternals (examplePlanet\<lparr>energy := 10, defense := 200\<rparr>) [] 0
               exampleConstants) = 10
   \<and> effectiveDamage 200 200 = 100
   \<and> map_option owner (resultPlanet (arrive exampleExternals (examplePlanet\<lparr>energy := 10, defense := 200\<rparr>) []
        (exampleArrival\<lparr>energyArriving := 200\<rparr>) exampleConstants)) = Some ''0xB''
   \<and> map_option energy (resultPlanet (arrive exampleExternals (examplePlanet\<lparr>energy := 10, defense := 200\<rparr>) []
        (exampleArrival\<lparr>energyArriving := 200\<rparr>) exampleConstants)) = Some 180
   \<and> specConquestEnergy 200 10 200 = 195"
  by (simp add: specConquestEnergy_def
        arrive_def resultPlanet_def examplePlanet_def exampleArrival_def exampleConstants_def
        updatePlanetToTime_def getSilverOverTime_def getEnergyAtTime_def hasOwner_def EMPTY_ADDRESS_def
        applyEnergy_def effectiveDamage_def CONTRACT_PRECISION_def Let_def)

text \<open>
  Claim C2, as amended. Start from a territory with \<open>0 \<le> energy\<close>,
  \<open>0 \<le> silver \<le> silverCap\<close>, a positive energy cap and defense and non-negative growth
  rates, and apply any sequence of extrapolations and arrival resolutions whose arrivals
  carry non-negative energy and silver and whose delayed upgrades have a non-negative
  energy-growth multiplier and a positive defense multiplier. Then after each operation
  \<open>0 \<le> energy\<close> and \<open>0 \<le> silver \<le> silverCap\<close>. The bound \<open>energy \<le> energyCap\<close> is
  preserved by extrapolation, and it holds after an arrival resolved against a
  \<open>SILVER_BANK\<close> that is not destroyed; for the other planet types an arrival may leave the
  energy above the cap.
\<close>
theorem cap_invariant_of_operations:
  assumes "planetWellFormed planet" and "list_all operationWellFormed operations"
  shows "list_all withinBounds (statesAfter ext constants planet operations)
       \<and> (energy planet \<le> energyCap planet \<longrightarrow>
            energy (updatePlanetToTime ext planet planetArtifacts atTimeMillis constants)
              \<le> energyCap (updatePlanetToTime ext planet planetArtifacts atTimeMillis constants))
       \<and> (\<not> destroyed planet \<and> planetType planet = SILVER_BANK
            \<and> locationId planet = toPlanet arrival' \<longrightarrow>
            (\<exists>d. arrive ext planet artifactsOnPlanet arrival' constants = Inr d
                  \<and> energy (current d) \<le> energyCap (current d)))"
proof -
  have "list_all planetWellFormed (statesAfter ext constants planet operations)"
    using assms by (rule statesAfter_wellFormed)
  then have a: "list_all withinBounds (statesAfter ext constants planet operations)"
    by (simp add: list_all_iff planetWellFormed_def withinBounds_def)
  have b: "energy planet \<le> energyCap planet \<longrightarrow>
            energy (updatePlanetToTime ext planet planetArtifacts atTimeMillis constants)
              \<le> energyCap (updatePlanetToTime ext planet planetArtifacts atTimeMillis constants)"
    using assms(1) by (simp add: updatePlanetToTime_energy_le_cap)
  have c: "\<not> destroyed planet \<and> planetType planet = SILVER_BANK
            \<and> locationId planet = toPlanet arrival' \<longrightarrow>
            (\<exists>d. arrive ext planet artifactsOnPlanet arrival' constants = Inr d
                  \<and> energy (current d) \<le> energyCap (current d))"
  proof (intro impI, elim conjE)
    assume h: "\<not> destroyed planet" "planetType planet = SILVER_BANK"
      "locationId planet = toPlanet arrival'"
    from arrive_returns[OF h(3)]
    obtain d where d: "arrive ext planet artifactsOnPlanet arrival' constants = Inr d"
      by blast
    from arrive_silver_bank_capped[OF d h(1) h(2)] d
    show "\<exists>d. arrive ext planet artifactsOnPlanet arrival' constants = Inr d
                  \<and> energy (current d) \<le> energyCap (current d)"
      by blast
  qed
  from a b c show ?thesis by blast
qed

theorem cap_invariant_of_operations_witness:
  "planetWellFormed (examplePlanet\<lparr>planetType := SILVER_BANK\<rparr>)
   \<and> list_all operationWellFormed
       [BringCurrent [examplePhotoid] 1000, Arrive [] (exampleArrival\<lparr>player := ''0xA'', energyArriving := 80\<rparr>)]
   \<and> list_all withinBounds (statesAfter exampleExternals exampleConstants
        (examplePlanet\<lparr>planetType := SILVER_BANK\<rparr>)
        [BringCurrent [examplePhotoid] 1000, Arrive [] (exampleArrival\<lparr>player := ''0xA'', energyArriving := 80\<rparr>)])
   \<and> energy (examplePlanet\<lparr>planetType := SILVER_BANK\<rparr>) \<le> energyCap (examplePlanet\<lparr>planetType := SILVER_BANK\<rparr>)
   \<and> energy (updatePlanetToTime exampleExternals (examplePlanet\<lparr>planetType := SILVER_BANK\<rparr>) [] 1000 exampleConstants)
       \<le> energyCap (updatePlanetToTime exampleExternals (examplePlanet\<lparr>planetType := SILVER_BANK\<rparr>) [] 1000 exampleConstants)
   \<and> \<not> destroyed (examplePlanet\<lparr>planetType := SILVER_BANK\<rparr>)
   \<and> planetType (examplePlanet\<lparr>planetType := SILVER_BANK\<rparr>) = SILVER_BANK
   \<and> locationId (examplePlanet\<lparr>planetType := SILVER_BANK\<rparr>)
       = toPlanet (exampleArrival\<lparr>player := ''0xA'', energyArriving := 80\<rparr>)
   \<and> (\<exists>d. arrive exampleExternals (examplePlanet\<lparr>planetType := SILVER_BANK\<rparr>) []
             (exampleArrival\<lparr>player := ''0xA'', energyArriving := 80\<rparr>) exampleConstants = Inr d
          \<and> energy (current d) \<le> energyCap (current d))"
proof -
  have h1: "planetWellFormed (examplePlanet\<lparr>planetType := SILVER_BANK\<rparr>)"
    by (simp add: planetWellFormed_def examplePlanet_def)
  have h2: "list_all operationWellFormed
       [BringCurrent [examplePhotoid] 1000, Arrive [] (exampleArrival\<lparr>player := ''0xA'', energyArriving := 80\<rparr>)]"
    by (simp add: artifactsWellFormed_def examplePhotoid_def exampleUpgrade_def exampleArrival_def)
  have h3: "energy (examplePlanet\<lparr>planetType := SILVER_BANK\<rparr>) \<le> energyCap (examplePlanet\<lparr>planetType := SILVER_BANK\<rparr>)
     \<and> \<not> destroyed (examplePlanet\<lparr>planetType := SILVER_BANK\<rparr>)
     \<and> planetType (examplePlanet\<lparr>planetType := SILVER_BANK\<rparr>) = SILVER_BANK
     \<and> locationId (examplePlanet\<lparr>planetType := SILVER_BANK\<rparr>)
         = toPlanet (exampleArrival\<lparr>player := ''0xA'', energyArriving := 80\<rparr>)"
    by (simp add: examplePlanet_def exampleArrival_def)
  from cap_invariant_of_operations[OF h1 h2, of exampleExternals exampleConstants "[]" 1000
         "exampleArrival\<lparr>player := ''0xA'', energyArriving := 80\<rparr>" "[]"] h1 h2 h3
  show ?thesis by blast
qed

text \<open>Claim C2 as stated fails for a reinforcement: the scenario territory (a
  \<open>PLANET\<close>, cap 100) with energy 90 receives 50 from its own owner and is left with
  energy 140.\<close>
theorem reinforcement_exceeds_cap_counterexample:
  "player (exampleArrival\<lparr>player := ''0xA'', energyArriving := 50\<rparr>) = owner (examplePlanet\<lparr>energy := 90\<rparr>)
   \<and> energy (examplePlanet\<lparr>energy := 90\<rparr>) \<le> energyCap (examplePlanet\<lparr>energy := 90\<rparr>)
   \<and> map_option energy (resultPlanet (arrive exampleExternals (examplePlanet\<lparr>energy := 90\<rparr>) []
        (exampleArrival\<lparr>player := ''0xA'', energyArriving := 50\<rparr>) exampleConstants)) = Some 140
   \<and> map_option energyCap (resultPlanet (arrive exampleExternals (examplePlanet\<lparr>energy := 90\<rparr>) []
        (exampleArrival\<lparr>player := ''0xA'', energyArriving := 50\<rparr>) exampleConstants)) = Some 100"
  by (simp add: arrive_def resultPlanet_def examplePlanet_def exampleArrival_def exampleConstants_def
        updatePlanetToTime_def getSilverOverTime_def getEnergyAtTime_def hasOwner_def EMPTY_ADDRESS_def
        applyEnergy_def effectiveDamage_def CONTRACT_PRECISION_def Let_def)




text \<open>
  Claim C6. For every territory, \<open>lastUpdated\<close> does not decrease across any sequence of
  calls of \<open>updatePlanetToTime\<close>, and a call whose target time is strictly before the
  territory's \<open>lastUpdated\<close> leaves the territory entirely unchanged.
\<close>
theorem lastUpdated_monotonic:
  "lastUpdated planet \<le> lastUpdated (bringCurrentSeq ext constants calls planet)
   \<and> (atTimeMillis < lastUpdated planet * 1000 \<longrightarrow>
        updatePlanetToTime ext planet planetArtifacts atTimeMillis constants = planet)"
  by (simp add: bringCurrentSeq_mono updatePlanetToTime_def)

theorem lastUpdated_monotonic_witness:
  "lastUpdated (examplePlanet\<lparr>lastUpdated := 50\<rparr>)
      \<le> lastUpdated (bringCurrentSeq exampleExternals exampleConstants [([], 60000), ([], 10000)]
            (examplePlanet\<lparr>lastUpdated := 50\<rparr>))
   \<and> (10000 :: real) < lastUpdated (examplePlanet\<lparr>lastUpdated := 50\<rparr>) * 1000
   \<and> updatePlanetToTime exampleExternals (examplePlanet\<lparr>lastUpdated := 50\<rparr>) [] 10000 exampleConstants
        = examplePlanet\<lparr>lastUpdated := 50\<rparr>"
  using lastUpdated_monotonic[of "examplePlanet\<lparr>lastUpdated := 50\<rparr>" exampleExternals exampleConstants
             "[([], 60000), ([], 10000)]" 10000 "[]"]
  by (simp add: examplePlanet_def)

text \<open>
  Claim C7. For every unowned territory (owner equal to the empty-address sentinel) and
  every target time, \<open>getSilverOverTime\<close> returns the stored silver and
  \<open>getEnergyAtTime\<close> returns the stored energy.
\<close>
theorem unowned_extrapolation_unchanged:
  "owner planet = EMPTY_ADDRESS \<Longrightarrow>
     getSilverOverTime planet startTimeMillis endTimeMillis = silver planet
     \<and> getEnergyAtTime planet atTimeMillis = energy planet"
  by (simp add: getSilverOverTime_def getEnergyAtTime_def hasOwner_def)

text \<open>The specification's scenario: an unowned territory with silver growth 5,
  extrapolated 100 time units forward, keeps its silver.\<close>
theorem unowned_extrapolation_unchanged_witness:
  "owner (examplePlanet\<lparr>owner := EMPTY_ADDRESS, silverGrowth := 5, silver := 7\<rparr>) = EMPTY_ADDRESS
   \<and> getSilverOverTime (examplePlanet\<lparr>owner := EMPTY_ADDRESS, silverGrowth := 5, silver := 7\<rparr>) 0 100000 = 7
   \<and> getEnergyAtTime (examplePlanet\<lparr>owner := EMPTY_ADDRESS, silverGrowth := 5, silver := 7\<rparr>) 100000 = 50"
  using unowned_extrapolation_unchanged[of "examplePlanet\<lparr>owner := EMPTY_ADDRESS, silverGrowth := 5, silver := 7\<rparr>"
          0 100000 100000]
  by (simp add: examplePlanet_def)

text \<open>
  Claim C10. For every planet and upgrade, \<open>applyUpgrade\<close> leaves \<open>energyCap\<close> unchanged:
  it multiplies \<open>speed\<close> by \<open>energyCapMultiplier / 100\<close> as well as by
  \<open>speedMultiplier / 100\<close> (and divides by both when un-applying), while \<open>energyGrowth\<close>,
  \<open>range\<close> and \<open>defense\<close> are each scaled by their own multiplier; and it is the function
  that \<open>updatePlanetToTime\<close> applies, once, for an activated photoid cannon whose
  activation delay has elapsed.
\<close>
theorem applyUpgrade_scales_speed_not_energyCap:
  "applyUpgrade planet upgrade False =
     planet\<lparr>speed := speed planet * (energyCapMultiplier upgrade / 100) * (speedMultiplier upgrade / 100),
            energyGrowth := energyGrowth planet * (energyGroMultiplier upgrade / 100),
            range' := range' planet * (rangeMultiplier upgrade / 100),
            defense := defense planet * (defMultiplier upgrade / 100)\<rparr>
   \<and> applyUpgrade planet upgrade True =
     planet\<lparr>speed := speed planet / (energyCapMultiplier upgrade / 100) / (speedMultiplier upgrade / 100),
            energyGrowth := energyGrowth planet / (energyGroMultiplier upgrade / 100),
            range' := range' planet / (rangeMultiplier upgrade / 100),
            defense := defense planet / (defMultiplier upgrade / 100)\<rparr>
   \<and> energyCap (applyUpgrade planet upgrade unApply) = energyCap planet
   \<and> (\<not> atTimeMillis < lastUpdated planet * 1000
        \<and> find (isActivePhotoid ext constants atTimeMillis) planetArtifacts = Some a
        \<and> localPhotoidUpgrade planet = None \<longrightarrow>
      updatePlanetToTime ext planet planetArtifacts atTimeMillis constants =
        applyUpgrade
          (planet\<lparr>silver := getSilverOverTime planet (lastUpdated planet * 1000) atTimeMillis,
                  energy := getEnergyAtTime planet atTimeMillis,
                  lastUpdated := atTimeMillis / 1000,
                  localPhotoidUpgrade := Some (timeDelayedUpgrade a)\<rparr>)
          (timeDelayedUpgrade a) False)"
  by (simp add: applyUpgrade_def updatePlanetToTime_def Let_def getEnergyAtTime_def hasOwner_def)

theorem applyUpgrade_scales_speed_not_energyCap_witness:
  "\<not> (20000000 :: real) < lastUpdated examplePlanet * 1000
   \<and> find (isActivePhotoid exampleExternals exampleConstants 20000000) [examplePhotoid] = Some examplePhotoid
   \<and> localPhotoidUpgrade examplePlanet = None
   \<and> speed (updatePlanetToTime exampleExternals examplePlanet [examplePhotoid] 20000000 exampleConstants)
       = 75 * (120 / 100) * (175 / 100)
   \<and> energyCap (updatePlanetToTime exampleExternals examplePlanet [examplePhotoid] 20000000 exampleConstants)
       = 100"
proof -
  have h1: "\<not> (20000000 :: real) < lastUpdated examplePlanet * 1000"
    by (simp add: examplePlanet_def)
  have h2: "find (isActivePhotoid exampleExternals exampleConstants 20000000) [examplePhotoid]
              = Some examplePhotoid"
    by (simp add: isActivePhotoid_def examplePhotoid_def exampleExternals_def exampleConstants_def)
  have h3: "localPhotoidUpgrade examplePlanet = None"
    by (simp add: examplePlanet_def)
  from applyUpgrade_scales_speed_not_energyCap[of examplePlanet exampleUpgrade True 20000000 exampleExternals exampleConstants
              "[examplePhotoid]" examplePhotoid] h1 h2 h3
  have eq: "updatePlanetToTime exampleExternals examplePlanet [examplePhotoid] 20000000 exampleConstants =
        applyUpgrade
          (examplePlanet\<lparr>silver := getSilverOverTime examplePlanet (lastUpdated examplePlanet * 1000) 20000000,
                  energy := getEnergyAtTime examplePlanet 20000000,
                  lastUpdated := 20000000 / 1000,
                  localPhotoidUpgrade := Some (timeDelayedUpgrade examplePhotoid)\<rparr>)
          (timeDelayedUpgrade examplePhotoid) False"
    by blast
  have sp: "speed (applyUpgrade
          (examplePlanet\<lparr>silver := getSilverOverTime examplePlanet (lastUpdated examplePlanet * 1000) 20000000,
                  energy := getEnergyAtTime examplePlanet 20000000,
                  lastUpdated := 20000000 / 1000,
                  localPhotoidUpgrade := Some (timeDelayedUpgrade examplePhotoid)\<rparr>)
          (timeDelayedUpgrade examplePhotoid) False) = 75 * (120 / 100) * (175 / 100)"
    by (simp add: applyUpgrade_def Let_def examplePlanet_def examplePhotoid_def exampleUpgrade_def)
  have ec: "energyCap (applyUpgrade
          (examplePlanet\<lparr>silver := getSilverOverTime examplePlanet (lastUpdated examplePlanet * 1000) 20000000,
                  energy := getEnergyAtTime examplePlanet 20000000,
                  lastUpdated := 20000000 / 1000,
                  localPhotoidUpgrade := Some (timeDelayedUpgrade examplePhotoid)\<rparr>)
          (timeDelayedUpgrade examplePhotoid) False) = 100"
    by (simp add: applyUpgrade_def Let_def examplePlanet_def)
  show ?thesis using h1 h2 h3 eq sp ec by simp
qed

section \<open>Properties of the entity store\<close>

subsection \<open>What the store operations leave alone\<close>

lemma setPlanet_schedule:
  "arrivals (setPlanet p s) = arrivals s"
  "planetArrivalIds (setPlanet p s) = planetArrivalIds s"
  "pendingTimers (setPlanet p s) = pendingTimers s"
  "nextTimer (setPlanet p s) = nextTimer s"
  by (simp_all add: setPlanet_def Let_def split: option.splits prod.splits)

lemma setPlanet_planets: "planets (setPlanet p s) = (planets s)(locationId p \<mapsto> p)"
  by (auto simp: setPlanet_def setObjectSyncState_def Let_def split: option.splits prod.splits)

lemma updateScore_schedule:
  "arrivals (updateScore k s) = arrivals s"
  "planetArrivalIds (updateScore k s) = planetArrivalIds s"
  "pendingTimers (updateScore k s) = pendingTimers s"
  "nextTimer (updateScore k s) = nextTimer s"
  by (simp_all add: updateScore_def split: option.splits)

lemma updatePlanetIfStale_schedule:
  assumes "updatePlanetIfStale ext now k p s = (p', s')"
  shows "arrivals s' = arrivals s \<and> planetArrivalIds s' = planetArrivalIds s
       \<and> pendingTimers s' = pendingTimers s \<and> nextTimer s' = nextTimer s"
  using assms by (auto simp: updatePlanetIfStale_def Let_def setPlanet_schedule split: if_splits)

lemma getPlanetWithLocation_schedule:
  assumes "getPlanetWithLocation ext now loc s = Inr (p', s')"
  shows "arrivals s' = arrivals s \<and> planetArrivalIds s' = planetArrivalIds s
       \<and> pendingTimers s' = pendingTimers s \<and> nextTimer s' = nextTimer s"
  using assms
  by (auto simp: getPlanetWithLocation_def setPlanet_schedule
           split: option.splits sum.splits dest: updatePlanetIfStale_schedule)

lemma getPlanetWithId_schedule:
  assumes "getPlanetWithId ext now k b s = Inr (p', s')"
  shows "arrivals s' = arrivals s \<and> planetArrivalIds s' = planetArrivalIds s
       \<and> pendingTimers s' = pendingTimers s \<and> nextTimer s' = nextTimer s"
  using assms
  by (auto simp: getPlanetWithId_def
           split: option.splits sum.splits if_splits prod.splits
           dest: updatePlanetIfStale_schedule getPlanetWithLocation_schedule)

lemma addPlanetLocation_schedule:
  assumes "addPlanetLocation ext now loc s = Inr s'"
  shows "arrivals s' = arrivals s \<and> planetArrivalIds s' = planetArrivalIds s
       \<and> pendingTimers s' = pendingTimers s \<and> nextTimer s' = nextTimer s"
proof -
  from assms obtain known s1 where g: "getPlanetWithId ext now (hash loc) False s = Inr (known, s1)"
    by (auto simp: addPlanetLocation_def split: sum.splits)
  note f = getPlanetWithId_schedule[OF g]
  from assms g f show ?thesis
    by (auto simp: addPlanetLocation_def Let_def setPlanet_schedule
             split: sum.splits option.splits if_splits)
qed

lemma clearArrivalIds_frame:
  "planetArrivalIds (clearArrivalIds ids s) = planetArrivalIds s"
  "nextTimer (clearArrivalIds ids s) = nextTimer s"
  "planets (clearArrivalIds ids s) = planets s"
  "artifacts (clearArrivalIds ids s) = artifacts s"
  "contractConstants (clearArrivalIds ids s) = contractConstants s"
  "address (clearArrivalIds ids s) = address s"
  by (induction ids arbitrary: s; simp add: Let_def split: option.splits)+

lemma clearArrivalIds_arrivals:
  "arrivals (clearArrivalIds ids s) k = (if k \<in> set ids then None else arrivals s k)"
  by (induction ids arbitrary: s) (auto simp: Let_def split: option.splits)

lemma clearArrivalIds_keeps_cleared:
  "pendingTimers s h = None \<Longrightarrow> pendingTimers (clearArrivalIds ids s) h = None"
  by (induction ids arbitrary: s) (auto simp: Let_def split: option.splits)

lemma clearArrivalIds_clears_timer:
  assumes "k \<in> set ids" "arrivals s k = Some awt"
  shows "pendingTimers (clearArrivalIds ids s) (timer awt) = None"
  using assms
proof (induction ids arbitrary: s)
  case Nil
  then show ?case by simp
next
  case (Cons i rest)
  show ?case
  proof (cases "i = k")
    case True
    then show ?thesis using Cons.prems
      by (simp add: Let_def clearArrivalIds_keeps_cleared)
  next
    case False
    with Cons.prems have k: "k \<in> set rest" by simp
    define s1 where "s1 = (let s1 = (case arrivals s i of
                    Some arrivalWithTimer \<Rightarrow>
                      s\<lparr>pendingTimers := (pendingTimers s)(timer arrivalWithTimer := None)\<rparr>
                  | None \<Rightarrow> s)
        in s1\<lparr>arrivals := (arrivals s1)(i := None)\<rparr>)"
    have "arrivals s1 k = Some awt" using False Cons.prems(2)
      by (simp add: s1_def Let_def split: option.splits)
    from Cons.IH[OF k this] show ?thesis by (simp add: s1_def)
  qed
qed

lemma clearOldArrivals_frame:
  "nextTimer (clearOldArrivals p s) = nextTimer s"
  "planets (clearOldArrivals p s) = planets s"
  "artifacts (clearOldArrivals p s) = artifacts s"
  "contractConstants (clearOldArrivals p s) = contractConstants s"
  "address (clearOldArrivals p s) = address s"
  "planetArrivalIds (clearOldArrivals p s) (locationId p) = Some []"
  by (simp_all add: clearOldArrivals_def Let_def clearArrivalIds_frame split: option.splits)

lemma clearOldArrivals_arrivals:
  assumes "planetArrivalIds s (locationId p) = Some ids"
  shows "arrivals (clearOldArrivals p s) k = (if k \<in> set ids then None else arrivals s k)"
  using assms by (simp add: clearOldArrivals_def Let_def clearArrivalIds_arrivals)

lemma clearOldArrivals_clears_timer:
  assumes "planetArrivalIds s (locationId p) = Some ids" "k \<in> set ids" "arrivals s k = Some awt"
  shows "pendingTimers (clearOldArrivals p s) (timer awt) = None"
  using assms by (simp add: clearOldArrivals_def Let_def clearArrivalIds_clears_timer)

lemma processArrivalsLoop_schedule:
  assumes "processArrivalsLoop ext now k as (p, s, awts) = (p', s', awts')"
  shows "arrivals s' = arrivals s \<and> planetArrivalIds s' = planetArrivalIds s
       \<and> nextTimer s \<le> nextTimer s'
       \<and> (\<forall>h < nextTimer s. pendingTimers s' h = pendingTimers s h)
       \<and> (\<forall>awt \<in> set awts'. awt \<in> set awts \<or> nextTimer s \<le> timer awt)"
  using assms
proof (induction as arbitrary: p s awts)
  case Nil
  then show ?case by simp
next
  case (Cons a as)
  show ?case
  proof (cases "now / 1000 - arrivalTime a > 0")
    case past: True
    show ?thesis
    proof (cases "arrive ext p (getPlanetArtifacts s (locationId p)) a (contractConstants s)")
      case (Inl e)
      with past Cons.prems have "processArrivalsLoop ext now k as (p, s, awts) = (p', s', awts')"
        by simp
      from Cons.IH[OF this] show ?thesis .
    next
      case (Inr d)
      define s1 where "s1 = s\<lparr>planets := (planets s)(k \<mapsto> current d),
                  notifications := notifications s @ emitArrivalNotifications (address s) d\<rparr>"
      from past Inr Cons.prems
      have "processArrivalsLoop ext now k as (current d, s1, awts) = (p', s', awts')"
        by (simp add: s1_def)
      from Cons.IH[OF this] show ?thesis by (simp add: s1_def)
    qed
  next
    case future: False
    define s1 where "s1 = s\<lparr>pendingTimers := (pendingTimers s)(nextTimer s \<mapsto> (k, a)),
             nextTimer := Suc (nextTimer s)\<rparr>"
    from future Cons.prems
    have "processArrivalsLoop ext now k as
            (p, s1, awts @ [\<lparr>arrivalData = a, timer = nextTimer s\<rparr>]) = (p', s', awts')"
      by (simp add: s1_def)
    from Cons.IH[OF this] show ?thesis by (auto simp: s1_def)
  qed
qed

lemma processArrivalsForPlanet_schedule:
  assumes "processArrivalsForPlanet ext now k as s = (awts, s')"
  shows "arrivals s' = arrivals s \<and> planetArrivalIds s' = planetArrivalIds s
       \<and> nextTimer s \<le> nextTimer s'
       \<and> (\<forall>h < nextTimer s. pendingTimers s' h = pendingTimers s h)
       \<and> (\<forall>awt \<in> set awts. nextTimer s \<le> timer awt)"
proof (cases "planets s k")
  case None
  with assms show ?thesis by (simp add: processArrivalsForPlanet_def)
next
  case (Some p)
  obtain p' s1 awts1 where l: "processArrivalsLoop ext now k (sort_key arrivalTime as) (p, s, []) = (p', s1, awts1)"
    by (cases "processArrivalsLoop ext now k (sort_key arrivalTime as) (p, s, [])") auto
  with Some assms have e: "awts = awts1" "s' = updateScore k s1"
    by (simp_all add: processArrivalsForPlanet_def)
  from processArrivalsLoop_schedule[OF l] show ?thesis
    by (simp add: e updateScore_schedule)
qed

lemma installArrivals_frame:
  "pendingTimers (installArrivals k awts s) = pendingTimers s"
  "nextTimer (installArrivals k awts s) = nextTimer s"
  "planets (installArrivals k awts s) = planets s"
  by (induction awts arbitrary: s; simp add: Let_def split: option.splits)+

lemma installArrivals_step:
  "installArrivals k (a # awts) s =
     installArrivals k awts
       (case planetArrivalIds s k of
          Some arrivalIds \<Rightarrow>
            s\<lparr>arrivals := (arrivals s)(eventId (arrivalData a) \<mapsto> a),
              planetArrivalIds := (planetArrivalIds s)(k \<mapsto> arrivalIds @ [eventId (arrivalData a)])\<rparr>
        | None \<Rightarrow> s\<lparr>arrivals := (arrivals s)(eventId (arrivalData a) \<mapsto> a)\<rparr>)"
  by (simp add: Let_def split: option.splits)

lemma installArrivals_arrivals:
  assumes "arrivals (installArrivals k awts s) i = Some awt"
  shows "awt \<in> set awts \<or> arrivals s i = Some awt"
  using assms
proof (induction awts arbitrary: s)
  case Nil
  then show ?case by simp
next
  case (Cons a awts)
  define s1 where "s1 = (case planetArrivalIds s k of
          Some arrivalIds \<Rightarrow>
            s\<lparr>arrivals := (arrivals s)(eventId (arrivalData a) \<mapsto> a),
              planetArrivalIds := (planetArrivalIds s)(k \<mapsto> arrivalIds @ [eventId (arrivalData a)])\<rparr>
        | None \<Rightarrow> s\<lparr>arrivals := (arrivals s)(eventId (arrivalData a) \<mapsto> a)\<rparr>)"
  have a1: "arrivals s1 = (arrivals s)(eventId (arrivalData a) \<mapsto> a)"
    by (simp add: s1_def split: option.splits)
  from Cons.prems have "arrivals (installArrivals k awts s1) i = Some awt"
    unfolding installArrivals_step s1_def .
  from Cons.IH[OF this] have "awt \<in> set awts \<or> arrivals s1 i = Some awt" .
  then show ?case using a1 by (auto split: if_splits)
qed

lemma installArrivals_append:
  "installArrivals k (xs @ ys) s = installArrivals k ys (installArrivals k xs s)"
  by (induction xs arbitrary: s) simp_all

lemma installArrivals_last:
  "arrivals (installArrivals k (bs @ [b]) s)
     = (arrivals (installArrivals k bs s))(eventId (arrivalData b) \<mapsto> b)"
  by (simp add: installArrivals_append Let_def split: option.splits)

lemma installArrivals_index_last:
  "planetArrivalIds (installArrivals k (bs @ [b]) s) k
     = map_option (\<lambda>ids. ids @ [eventId (arrivalData b)]) (planetArrivalIds (installArrivals k bs s) k)"
  by (simp add: installArrivals_append Let_def split: option.splits)

lemma installArrivals_index:
  assumes "planetArrivalIds s k = Some ids0"
  shows "planetArrivalIds (installArrivals k awts s) k
           = Some (ids0 @ map (\<lambda>awt. eventId (arrivalData awt)) awts)"
proof (induction awts rule: rev_induct)
  case Nil
  show ?case using assms by simp
next
  case (snoc b bs)
  then show ?case by (simp add: installArrivals_index_last)
qed

lemma installArrivals_installed:
  assumes "i \<in> set (map (\<lambda>awt. eventId (arrivalData awt)) awts)"
  shows "\<exists>awt \<in> set awts. arrivals (installArrivals k awts s) i = Some awt"
  using assms
proof (induction awts rule: rev_induct)
  case Nil
  then show ?case by simp
next
  case (snoc b bs)
  show ?case
  proof (cases "i = eventId (arrivalData b)")
    case True
    then show ?thesis by (simp add: installArrivals_last)
  next
    case False
    with snoc.prems have "i \<in> set (map (\<lambda>awt. eventId (arrivalData awt)) bs)" by auto
    from snoc.IH[OF this] obtain awt where "awt \<in> set bs"
      "arrivals (installArrivals k bs s) i = Some awt" by blast
    with False show ?thesis by (auto simp: installArrivals_last)
  qed
qed

lemma planetToCommit_locationId:
  "locationId (planetToCommit ext cc l kl planet ua rl cl) = locationId planet"
  by (simp add: planetToCommit_def keepLocalFields_def Let_def split: option.splits)

lemma planetToCommit_pendingSlots:
  "pendingSlots (planetToCommit ext cc (Some l) kl planet ua rl cl) = pendingSlots l"
  by (simp add: planetToCommit_def keepLocalFields_def pendingSlots_def Let_def split: option.splits)

lemma planetToCommit_ledgerFields:
  "ledgerFields (planetToCommit ext cc l kl planet ua rl cl) = ledgerFields planet"
  by (simp add: planetToCommit_def keepLocalFields_def ledgerFields_def Let_def split: option.splits)

lemma planetToCommit_heldArtifactIds:
  "heldArtifactIds (planetToCommit ext cc (Some l) kl planet ua rl cl)
     = (case ua of Some ids \<Rightarrow> ids | None \<Rightarrow> heldArtifactIds l)"
  by (simp add: planetToCommit_def keepLocalFields_def Let_def split: option.splits)

lemma applyUpgrade_pendingSlots: "pendingSlots (applyUpgrade p u b) = pendingSlots p"
  by (simp add: applyUpgrade_def pendingSlots_def Let_def)

lemma updatePlanetToTime_pendingSlots:
  "pendingSlots (updatePlanetToTime ext p arts t cc) = pendingSlots p"
proof -
  have u: "\<And>q v. pendingSlots (q\<lparr>localPhotoidUpgrade := v\<rparr>) = pendingSlots q"
    by (simp add: pendingSlots_def)
  have "pendingSlots (p\<lparr>silver := a, energy := b, lastUpdated := c\<rparr>) = pendingSlots p" for a b c
    by (simp add: pendingSlots_def)
  then show ?thesis
    by (simp add: updatePlanetToTime_def Let_def applyUpgrade_pendingSlots u split: option.splits)
qed

lemma applyEnergy_pendingSlots: "pendingSlots (applyEnergy prev p a cc) = pendingSlots p"
  by (simp add: applyEnergy_def pendingSlots_def Let_def)

lemma arrive_pendingSlots:
  assumes "arrive ext p arts a cc = Inr d"
  shows "pendingSlots (current d) = pendingSlots p"
proof -
  define p0 where "p0 = updatePlanetToTime ext p arts (arrivalTime a * 1000) cc"
  define p1 where "p1 = applyEnergy p0 p0 a cc"
  have s0: "pendingSlots p0 = pendingSlots p" by (simp add: p0_def updatePlanetToTime_pendingSlots)
  have s1: "pendingSlots p1 = pendingSlots p" by (simp add: p1_def applyEnergy_pendingSlots s0)
  have f: "\<And>q v. pendingSlots (q\<lparr>energy := v\<rparr>) = pendingSlots q"
          "\<And>q v. pendingSlots (q\<lparr>silver := v\<rparr>) = pendingSlots q"
          "\<And>q v. pendingSlots (q\<lparr>heldArtifactIds := v\<rparr>) = pendingSlots q"
    by (simp_all add: pendingSlots_def)
  from assms show ?thesis
    unfolding arrive_def Let_def p0_def[symmetric] p1_def[symmetric]
    by (auto simp: f s0 s1 split: if_splits)
qed

lemma processArrivalsLoop_planets:
  assumes "processArrivalsLoop ext now k as (p, s, awts) = (p', s', awts')"
    and "planets s k = Some p"
  shows "planets s' k = Some p' \<and> pendingSlots p' = pendingSlots p"
  using assms
proof (induction as arbitrary: p s awts)
  case Nil
  then show ?case by simp
next
  case (Cons a as)
  show ?case
  proof (cases "now / 1000 - arrivalTime a > 0")
    case past: True
    show ?thesis
    proof (cases "arrive ext p (getPlanetArtifacts s (locationId p)) a (contractConstants s)")
      case (Inl e)
      with past Cons.prems have "processArrivalsLoop ext now k as (p, s, awts) = (p', s', awts')"
        by simp
      from Cons.IH[OF this Cons.prems(2)] show ?thesis .
    next
      case (Inr d)
      define s1 where "s1 = s\<lparr>planets := (planets s)(k \<mapsto> current d),
                  notifications := notifications s @ emitArrivalNotifications (address s) d\<rparr>"
      from past Inr Cons.prems
      have l: "processArrivalsLoop ext now k as (current d, s1, awts) = (p', s', awts')"
        by (simp add: s1_def)
      have m: "planets s1 k = Some (current d)" by (simp add: s1_def)
      from Cons.IH[OF l m] arrive_pendingSlots[OF Inr] show ?thesis by simp
    qed
  next
    case future: False
    define s1 where "s1 = s\<lparr>pendingTimers := (pendingTimers s)(nextTimer s \<mapsto> (k, a)),
             nextTimer := Suc (nextTimer s)\<rparr>"
    from future Cons.prems
    have l: "processArrivalsLoop ext now k as
            (p, s1, awts @ [\<lparr>arrivalData = a, timer = nextTimer s\<rparr>]) = (p', s', awts')"
      by (simp add: s1_def)
    have m: "planets s1 k = Some p" using Cons.prems(2) by (simp add: s1_def)
    from Cons.IH[OF l m] show ?thesis .
  qed
qed

lemma updateScore_planets:
  assumes "planets s k = Some p"
  shows "planets (updateScore k s) k = Some (p\<lparr>silverSpent := calculateSilverSpent p\<rparr>)"
  using assms by (simp add: updateScore_def)

lemma processArrivalsForPlanet_planets:
  assumes "processArrivalsForPlanet ext now k as s = (awts, s')" and "planets s k = Some p"
  shows "\<exists>p'. planets s' k = Some p' \<and> pendingSlots p' = pendingSlots p"
proof -
  obtain q s1 awts1 where l: "processArrivalsLoop ext now k (sort_key arrivalTime as) (p, s, []) = (q, s1, awts1)"
    by (cases "processArrivalsLoop ext now k (sort_key arrivalTime as) (p, s, [])") auto
  with assms have e: "s' = updateScore k s1" by (simp add: processArrivalsForPlanet_def)
  from processArrivalsLoop_planets[OF l assms(2)]
  have q: "planets s1 k = Some q" "pendingSlots q = pendingSlots p" by simp_all
  have "pendingSlots (q\<lparr>silverSpent := calculateSilverSpent q\<rparr>) = pendingSlots q"
    by (simp add: pendingSlots_def)
  with updateScore_planets[OF q(1)] q(2) e show ?thesis by simp
qed

text \<open>The steps of replacePlanetFromContractData after the planet is committed.\<close>
lemma replacePlanet_decompose:
  assumes "replacePlanetFromContractData ext now planet ua uart rl cl s = Inr s'"
  shows "\<exists>s2. arrivals s2 = arrivals s \<and> planetArrivalIds s2 = planetArrivalIds s
            \<and> pendingTimers s2 = pendingTimers s \<and> nextTimer s2 = nextTimer s
            \<and> s' = updateScore (locationId planet)
                 (case ua of
                    Some arrivals' \<Rightarrow>
                      (case processArrivalsForPlanet ext now (locationId planet) arrivals'
                              (clearOldArrivals
                                 (planetToCommit ext (contractConstants s) (planets s (locationId planet))
                                    (planetLocationMap s (locationId planet)) planet uart rl cl)
                                 (setPlanet
                                    (planetToCommit ext (contractConstants s) (planets s (locationId planet))
                                       (planetLocationMap s (locationId planet)) planet uart rl cl) s2)) of
                         (updatedAwts, s'') \<Rightarrow> installArrivals (locationId planet) updatedAwts s'')
                  | None \<Rightarrow>
                      setPlanet
                        (planetToCommit ext (contractConstants s) (planets s (locationId planet))
                           (planetLocationMap s (locationId planet)) planet uart rl cl) s2)"
proof -
  define s1 where "s1 = s\<lparr>touchedPlanetIds := insert (locationId planet) (touchedPlanetIds s)\<rparr>"
  define pc where "pc = planetToCommit ext (contractConstants s) (planets s (locationId planet))
                                    (planetLocationMap s (locationId planet)) planet uart rl cl"
  have pid: "locationId pc = locationId planet" by (simp add: pc_def planetToCommit_locationId)
  define F where "F = (\<lambda>s2. updateScore (locationId planet)
                 (case ua of
                    Some arrivals' \<Rightarrow>
                      (case processArrivalsForPlanet ext now (locationId planet) arrivals'
                              (clearOldArrivals pc (setPlanet pc s2)) of
                         (updatedAwts, s'') \<Rightarrow> installArrivals (locationId planet) updatedAwts s'')
                  | None \<Rightarrow> setPlanet pc s2))"
  have "\<exists>s2. arrivals s2 = arrivals s \<and> planetArrivalIds s2 = planetArrivalIds s
            \<and> pendingTimers s2 = pendingTimers s \<and> nextTimer s2 = nextTimer s \<and> s' = F s2"
  proof (cases rl)
    case None
    have "s' = F s1" using assms None
      by (cases ua)
         (simp_all add: replacePlanetFromContractData_def Let_def F_def pc_def s1_def
            planetToCommit_locationId)
    then show ?thesis by (intro exI[of _ s1]) (simp add: s1_def)
  next
    case (Some r)
    from assms Some obtain s2 where
      a: "addPlanetLocation ext now (WorldLocation.truncate r) (markLocationRevealed r s1) = Inr s2"
      by (auto simp: replacePlanetFromContractData_def Let_def s1_def split: sum.splits)
    from addPlanetLocation_schedule[OF a]
    have f: "arrivals s2 = arrivals s \<and> planetArrivalIds s2 = planetArrivalIds s
            \<and> pendingTimers s2 = pendingTimers s \<and> nextTimer s2 = nextTimer s"
      by (simp add: markLocationRevealed_def s1_def)
    have "s' = F s2" using assms Some a
      by (cases ua)
         (simp_all add: replacePlanetFromContractData_def Let_def F_def pc_def s1_def
            planetToCommit_locationId)
    with f show ?thesis by blast
  qed
  then show ?thesis unfolding F_def pc_def .
qed

lemma replacePlanet_returns:
  "\<exists>s'. replacePlanetFromContractData ext now planet ua uart None cl s = Inr s'"
  by (simp add: replacePlanetFromContractData_def Let_def)

lemma replacePlanet_stored:
  assumes l: "planets s (locationId planet) = Some localPlanet"
    and r: "replacePlanetFromContractData ext now planet ua uart rl cl s = Inr s'"
  shows "\<exists>p'. planets s' (locationId planet) = Some p'
           \<and> pendingSlots p' = pendingSlots localPlanet
           \<and> (ua = None \<longrightarrow>
                p' = (planetToCommit ext (contractConstants s) (Some localPlanet)
                        (planetLocationMap s (locationId planet)) planet uart rl cl)
                      \<lparr>silverSpent := calculateSilverSpent
                          (planetToCommit ext (contractConstants s) (Some localPlanet)
                             (planetLocationMap s (locationId planet)) planet uart rl cl)\<rparr>)"
proof -
  define pc where "pc = planetToCommit ext (contractConstants s) (planets s (locationId planet))
                          (planetLocationMap s (locationId planet)) planet uart rl cl"
  have pc': "pc = planetToCommit ext (contractConstants s) (Some localPlanet)
                          (planetLocationMap s (locationId planet)) planet uart rl cl"
    by (simp add: pc_def l)
  have pid: "locationId pc = locationId planet" by (simp add: pc_def planetToCommit_locationId)
  have ps: "pendingSlots pc = pendingSlots localPlanet"
    by (simp add: pc' planetToCommit_pendingSlots)
  have sp: "\<And>q. pendingSlots (q\<lparr>silverSpent := calculateSilverSpent q\<rparr>) = pendingSlots q"
    by (simp add: pendingSlots_def)
  from replacePlanet_decompose[OF r] obtain s2 where
    s': "s' = updateScore (locationId planet)
                 (case ua of
                    Some arrivals' \<Rightarrow>
                      (case processArrivalsForPlanet ext now (locationId planet) arrivals'
                              (clearOldArrivals pc (setPlanet pc s2)) of
                         (updatedAwts, s'') \<Rightarrow> installArrivals (locationId planet) updatedAwts s'')
                  | None \<Rightarrow> setPlanet pc s2)"
    unfolding pc_def by blast
  have committed: "planets (setPlanet pc s2) (locationId planet) = Some pc"
    by (simp add: setPlanet_planets pid)
  show ?thesis
  proof (cases ua)
    case None
    with s' have "s' = updateScore (locationId planet) (setPlanet pc s2)" by simp
    with updateScore_planets[OF committed]
    have "planets s' (locationId planet) = Some (pc\<lparr>silverSpent := calculateSilverSpent pc\<rparr>)"
      by simp
    then show ?thesis using ps sp None unfolding pc' by simp
  next
    case (Some as)
    obtain awts s3 where
      p: "processArrivalsForPlanet ext now (locationId planet) as
            (clearOldArrivals pc (setPlanet pc s2)) = (awts, s3)"
      by (cases "processArrivalsForPlanet ext now (locationId planet) as
            (clearOldArrivals pc (setPlanet pc s2))") auto
    have c: "planets (clearOldArrivals pc (setPlanet pc s2)) (locationId planet) = Some pc"
      using committed by (simp add: clearOldArrivals_frame)
    from processArrivalsForPlanet_planets[OF p c] obtain q where
      q: "planets s3 (locationId planet) = Some q" "pendingSlots q = pendingSlots pc" by blast
    have "planets (installArrivals (locationId planet) awts s3) (locationId planet) = Some q"
      using q(1) by (simp add: installArrivals_frame)
    from updateScore_planets[OF this] s' Some p
    have "planets s' (locationId planet) = Some (q\<lparr>silverSpent := calculateSilverSpent q\<rparr>)"
      by simp
    then show ?thesis using q(2) ps sp Some by simp
  qed
qed

section \<open>The claims about the entity store\<close>

text \<open>
  Claim C4, as amended. Every time a wormhole-type artifact that is currently placed on
  a planet is committed through \<open>setArtifact\<close>, the derived wormhole map is recomputed for
  it: afterwards its entry is present, linking the planet it is on to its \<open>wormholeTo\<close>
  target, if and only if it has such a target and is activated, and is absent otherwise.
  When the artifact is not placed on any planet, \<open>setArtifact\<close> leaves the wormhole map
  as it is, so an entry recorded earlier stays. No other artifact's entry changes.
\<close>
theorem setArtifact_wormhole_entry:
  assumes "artifactType artifact = Wormhole"
  shows "(truthy (onPlanetId artifact) \<longrightarrow>
            wormholes (setArtifact ext artifact s) (id' artifact) =
              (if truthy (wormholeTo artifact) \<and> isActivated ext artifact
               then Some \<lparr>from' = the (onPlanetId artifact), to' = the (wormholeTo artifact)\<rparr>
               else None))
       \<and> (\<not> truthy (onPlanetId artifact) \<longrightarrow>
            wormholes (setArtifact ext artifact s) = wormholes s)
       \<and> (\<forall>other. other \<noteq> id' artifact \<longrightarrow>
            wormholes (setArtifact ext artifact s) other = wormholes s other)"
  using assms by (simp add: setArtifact_def setObjectSyncState_def Let_def)

theorem setArtifact_wormhole_entry_witness:
  "artifactType exampleWormhole = Wormhole
   \<and> truthy (onPlanetId exampleWormhole)
   \<and> wormholes (setArtifact exampleExternals exampleWormhole exampleStore) ''w1''
       = Some \<lparr>from' = ''0000a1'', to' = ''0000b2''\<rparr>
   \<and> wormholes (setArtifact exampleExternals exampleWormhole exampleStore) ''w2''
       = wormholes exampleStore ''w2''
   \<and> \<not> truthy (onPlanetId (exampleWormhole\<lparr>onPlanetId := None\<rparr>))
   \<and> wormholes (setArtifact exampleExternals (exampleWormhole\<lparr>onPlanetId := None\<rparr>) exampleStore)
       = wormholes exampleStore"
proof -
  have h1: "artifactType exampleWormhole = Wormhole" by (simp add: exampleWormhole_def)
  have h2: "truthy (onPlanetId exampleWormhole)" by (simp add: exampleWormhole_def)
  have h3: "artifactType (exampleWormhole\<lparr>onPlanetId := None\<rparr>) = Wormhole"
    by (simp add: exampleWormhole_def)
  have h4: "\<not> truthy (onPlanetId (exampleWormhole\<lparr>onPlanetId := None\<rparr>))" by simp
  have h5: "''w2'' \<noteq> id' exampleWormhole" by (simp add: exampleWormhole_def)
  from setArtifact_wormhole_entry[OF h1, of exampleExternals exampleStore] h2 h5
  have a: "wormholes (setArtifact exampleExternals exampleWormhole exampleStore) ''w1''
       = Some \<lparr>from' = ''0000a1'', to' = ''0000b2''\<rparr>
     \<and> wormholes (setArtifact exampleExternals exampleWormhole exampleStore) ''w2''
       = wormholes exampleStore ''w2''"
    by (simp add: exampleWormhole_def exampleExternals_def)
  from setArtifact_wormhole_entry[OF h3, of exampleExternals exampleStore] h4
  have b: "wormholes (setArtifact exampleExternals (exampleWormhole\<lparr>onPlanetId := None\<rparr>) exampleStore)
       = wormholes exampleStore"
    by blast
  from h1 h2 h4 a b show ?thesis by blast
qed

text \<open>Claim C4 as stated fails for an artifact that is no longer on a planet: the
  wormhole is committed while placed and activated, which records its link; committed
  again after it was deactivated and taken off the planet, its link is still in the
  map.\<close>
theorem setArtifact_unplaced_wormhole_counterexample:
  "wormholes (setArtifact exampleExternals exampleWormhole exampleStore) ''w1''
     = Some \<lparr>from' = ''0000a1'', to' = ''0000b2''\<rparr>
   \<and> artifactType (exampleWormhole\<lparr>onPlanetId := None, lastActivated := 0\<rparr>) = Wormhole
   \<and> onPlanetId (exampleWormhole\<lparr>onPlanetId := None, lastActivated := 0\<rparr>) = None
   \<and> \<not> isActivated exampleExternals (exampleWormhole\<lparr>onPlanetId := None, lastActivated := 0\<rparr>)
   \<and> wormholes (setArtifact exampleExternals (exampleWormhole\<lparr>onPlanetId := None, lastActivated := 0\<rparr>)
        (setArtifact exampleExternals exampleWormhole exampleStore)) ''w1''
     = Some \<lparr>from' = ''0000a1'', to' = ''0000b2''\<rparr>"
  by (simp add: setArtifact_def setObjectSyncState_def Let_def exampleWormhole_def exampleStore_def
      exampleExternals_def)

text \<open>
  Claim C5, as amended. For every fixed location (content hash and noise samples),
  ruleset constants and external hash functions, the planet that
  \<open>defaultPlanetFromLocation\<close> generates is determined in every field (tier, type, biome,
  base stats and innate bonuses among them) except two: \<open>lastUpdated\<close>, which is the clock
  at the time of the call in whole seconds, and \<open>isInContract\<close>, which tells whether the
  hash is in the store's set of touched planet ids. Two calls agree once these two fields
  are set aside; they throw alike, too.
\<close>
theorem defaultPlanet_determined_up_to_clock:
  "defaultPlanetFromLocation ext constants touched2 now2 loc =
     map_sum id (\<lambda>p. p\<lparr>lastUpdated := of_int \<lfloor>now2 / 1000\<rfloor>, isInContract := (hash loc \<in> touched2)\<rparr>)
       (defaultPlanetFromLocation ext constants touched1 now1 loc)"
  by (simp add: defaultPlanetFromLocation_def Let_def split: sum.splits prod.splits)

theorem defaultPlanet_determined_up_to_clock_witness:
  "defaultPlanetFromLocation exampleExternals exampleConstants {} 2000000 exampleLocation =
     map_sum id (\<lambda>p. p\<lparr>lastUpdated := 2000, isInContract := False\<rparr>)
       (defaultPlanetFromLocation exampleExternals exampleConstants {hash exampleLocation} 1000000
          exampleLocation)"
  using defaultPlanet_determined_up_to_clock[of exampleExternals exampleConstants "{}" 2000000
          exampleLocation "{hash exampleLocation}" 1000000]
  by simp

text \<open>Claim C5 as stated fails: the same location and constants, generated at
  \<open>Date.now() = 1000000\<close> and at \<open>2000000\<close>, give planets whose \<open>lastUpdated\<close> is 1000 and
  2000.\<close>
theorem defaultPlanet_clock_counterexample:
  "map_sum id lastUpdated (defaultPlanetFromLocation exampleExternals exampleConstants {} 1000000 exampleLocation) = Inr 1000
   \<and> map_sum id lastUpdated (defaultPlanetFromLocation exampleExternals exampleConstants {} 2000000 exampleLocation) = Inr 2000"
  by (simp add: defaultPlanetFromLocation_def planetTypeFromHexPerlin_def planetLevelFromHexPerlin_def
      spaceTypeFromPerlin_def getBiome_def
      exampleExternals_def exampleLocation_def hexValue_def hexDigitValue_def exampleConstants_def
      Let_def)

text \<open>
  Claim C8, as amended. For every planet already present in the local store,
  \<open>replacePlanetFromContractData\<close> (when it returns) leaves under the planet's id a planet
  whose unconfirmed slots \<open>unconfirmedReveal\<close>, \<open>unconfirmedDepartures\<close>,
  \<open>unconfirmedUpgrades\<close>, \<open>unconfirmedBuyHats\<close>, \<open>unconfirmedPlanetTransfers\<close>,
  \<open>unconfirmedFindArtifact\<close>, \<open>unconfirmedDepositArtifact\<close>, \<open>unconfirmedWithdrawArtifact\<close>,
  \<open>unconfirmedActivateArtifact\<close>, \<open>unconfirmedDeactivateArtifact\<close>,
  \<open>unconfirmedWithdrawSilver\<close> and \<open>unconfirmedProspectPlanet\<close> are those of the prior local
  copy. When no arrival list is supplied, the ledger fields (owner, level, type, energy,
  silver, caps, growth rates, range, speed, defense, \<open>lastUpdated\<close>, upgrade state and the
  others of \<open>ledgerFields\<close>) are those of the incoming data, and the list of held
  artifacts is the supplied artifact list if there is one and the local copy's list
  otherwise.
\<close>
theorem replacePlanet_keeps_pending_slots:
  assumes "planets s (locationId planet) = Some localPlanet"
    and "replacePlanetFromContractData ext now planet updatedArrivals updatedArtifactsOnPlanet
           revealedLocation claimerEthAddress s = Inr s'"
  shows "\<exists>p'. planets s' (locationId planet) = Some p'
           \<and> pendingSlots p' = pendingSlots localPlanet
           \<and> (updatedArrivals = None \<longrightarrow>
                ledgerFields p' = ledgerFields planet
                \<and> heldArtifactIds p' =
                    (case updatedArtifactsOnPlanet of
                       Some ids \<Rightarrow> ids
                     | None \<Rightarrow> heldArtifactIds localPlanet))"
proof -
  have f: "\<And>q v. ledgerFields (q\<lparr>silverSpent := v\<rparr>) = ledgerFields q"
          "\<And>q v. heldArtifactIds (q\<lparr>silverSpent := v\<rparr>) = heldArtifactIds q"
    by (simp_all add: ledgerFields_def)
  from replacePlanet_stored[OF assms] show ?thesis
    by (auto simp: f planetToCommit_ledgerFields planetToCommit_heldArtifactIds)
qed

theorem replacePlanet_keeps_pending_slots_witness:
  "planets exampleStoreWithPlanet (locationId (examplePlanet\<lparr>energy := 70\<rparr>)) = Some exampleLocalPlanet
   \<and> (\<exists>s' p'. replacePlanetFromContractData exampleExternals 100000 (examplePlanet\<lparr>energy := 70\<rparr>)
                 None None None None exampleStoreWithPlanet = Inr s'
        \<and> planets s' ''0000a1'' = Some p'
        \<and> unconfirmedReveal p' = Some ''tx1'' \<and> unconfirmedDepartures p' = [''tx2'']
        \<and> energy p' = 70 \<and> heldArtifactIds p' = [''art1''])"
proof -
  have h1: "planets exampleStoreWithPlanet (locationId (examplePlanet\<lparr>energy := 70\<rparr>)) = Some exampleLocalPlanet"
    by (simp add: exampleStoreWithPlanet_def examplePlanet_def)
  obtain s' where h2: "replacePlanetFromContractData exampleExternals 100000 (examplePlanet\<lparr>energy := 70\<rparr>)
                 None None None None exampleStoreWithPlanet = Inr s'"
    using replacePlanet_returns by blast
  from replacePlanet_keeps_pending_slots[OF h1 h2] obtain p' where p:
    "planets s' (locationId (examplePlanet\<lparr>energy := 70\<rparr>)) = Some p'"
    "pendingSlots p' = pendingSlots exampleLocalPlanet"
    "ledgerFields p' = ledgerFields (examplePlanet\<lparr>energy := 70\<rparr>)"
    "heldArtifactIds p' = heldArtifactIds exampleLocalPlanet"
    by auto
  have "planets s' ''0000a1'' = Some p'" using p(1) by (simp add: examplePlanet_def)
  moreover have "unconfirmedReveal p' = Some ''tx1'' \<and> unconfirmedDepartures p' = [''tx2'']"
    using p(2) by (simp add: pendingSlots_def exampleLocalPlanet_def)
  moreover have "energy p' = 70" using p(3) by (simp add: ledgerFields_def)
  moreover have "heldArtifactIds p' = [''art1'']" using p(4) by (simp add: exampleLocalPlanet_def)
  ultimately show ?thesis using h1 h2 by blast
qed

text \<open>Claim C8 as stated fails in both of its halves. The local copy holds artifact
  \<open>art1\<close> and has \<open>unconfirmedAddEmoji\<close> set; the incoming planet holds no artifact and no
  artifact list is supplied. Afterwards the stored planet still holds \<open>art1\<close> (a
  confirmed field that was not replaced by the incoming data), and its
  \<open>unconfirmedAddEmoji\<close> is the incoming \<open>False\<close> (a local pending flag that was not
  preserved).\<close>
theorem replacePlanet_fields_counterexample:
  "planets exampleStoreWithPlanet ''0000a1'' = Some exampleLocalPlanet
   \<and> heldArtifactIds exampleLocalPlanet = [''art1'']
   \<and> unconfirmedAddEmoji exampleLocalPlanet = True
   \<and> heldArtifactIds (examplePlanet\<lparr>energy := 70\<rparr>) = []
   \<and> map_option heldArtifactIds (storedPlanet (replacePlanetFromContractData exampleExternals 100000
        (examplePlanet\<lparr>energy := 70\<rparr>) None None None None exampleStoreWithPlanet) ''0000a1'')
       = Some [''art1'']
   \<and> map_option unconfirmedAddEmoji (storedPlanet (replacePlanetFromContractData exampleExternals 100000
        (examplePlanet\<lparr>energy := 70\<rparr>) None None None None exampleStoreWithPlanet) ''0000a1'')
       = Some False"
proof -
  have h1: "planets exampleStoreWithPlanet (locationId (examplePlanet\<lparr>energy := 70\<rparr>)) = Some exampleLocalPlanet"
    by (simp add: exampleStoreWithPlanet_def examplePlanet_def)
  obtain s' where h2: "replacePlanetFromContractData exampleExternals 100000 (examplePlanet\<lparr>energy := 70\<rparr>)
                 None None None None exampleStoreWithPlanet = Inr s'"
    using replacePlanet_returns by blast
  from replacePlanet_stored[OF h1 h2] obtain p' where p:
    "planets s' (locationId (examplePlanet\<lparr>energy := 70\<rparr>)) = Some p'"
    "p' = (planetToCommit exampleExternals (contractConstants exampleStoreWithPlanet) (Some exampleLocalPlanet)
                        (planetLocationMap exampleStoreWithPlanet (locationId (examplePlanet\<lparr>energy := 70\<rparr>)))
                        (examplePlanet\<lparr>energy := 70\<rparr>) None None None)
                      \<lparr>silverSpent := calculateSilverSpent
                          (planetToCommit exampleExternals (contractConstants exampleStoreWithPlanet) (Some exampleLocalPlanet)
                             (planetLocationMap exampleStoreWithPlanet (locationId (examplePlanet\<lparr>energy := 70\<rparr>)))
                             (examplePlanet\<lparr>energy := 70\<rparr>) None None None)\<rparr>"
    by auto
  have a: "heldArtifactIds p' = [''art1'']"
    by (simp add: p(2) planetToCommit_def keepLocalFields_def Let_def exampleLocalPlanet_def
          exampleStoreWithPlanet_def exampleStore_def examplePlanet_def)
  have b: "unconfirmedAddEmoji p' = False"
    by (simp add: p(2) planetToCommit_def keepLocalFields_def Let_def exampleLocalPlanet_def
          exampleStoreWithPlanet_def exampleStore_def examplePlanet_def)
  have c: "storedPlanet (replacePlanetFromContractData exampleExternals 100000
        (examplePlanet\<lparr>energy := 70\<rparr>) None None None None exampleStoreWithPlanet) ''0000a1'' = Some p'"
    using h2 p(1) by (simp add: storedPlanet_def examplePlanet_def)
  show ?thesis using a b c h1
    by (simp add: exampleLocalPlanet_def examplePlanet_def)
qed

text \<open>
  Claim C9. Let an arrival be scheduled for a planet: its id is in the planet's entry
  of \<open>planetArrivalIds\<close> and it is stored in \<open>arrivals\<close> with its timer handle (all stored
  handles having been issued before, that is, below \<open>nextTimer\<close>). Then
  \<open>clearOldArrivals\<close>, which \<open>replacePlanetFromContractData\<close> runs before it processes the
  fresh list, clears the timer, removes the arrival from \<open>arrivals\<close> and empties the
  planet's index. After \<open>replacePlanetFromContractData\<close> with a fresh arrival list the old
  timer is not pending (so its callback cannot run), an entry of \<open>arrivals\<close> under the
  old id can only be one installed by this call, with a timer issued by it, and every id
  in the planet's index is such an entry.
\<close>
theorem fresh_arrivals_cancel_old:
  assumes issued: "\<forall>k awt. arrivals s k = Some awt \<longrightarrow> timer awt < nextTimer s"
    and indexed: "planetArrivalIds s (locationId planet) = Some oldIds"
    and member: "arrivalId \<in> set oldIds"
    and stored: "arrivals s arrivalId = Some old"
    and run: "replacePlanetFromContractData ext now planet (Some updatedArrivals)
                updatedArtifactsOnPlanet revealedLocation claimerEthAddress s = Inr s'"
  shows "arrivals (clearOldArrivals planet s) arrivalId = None
       \<and> pendingTimers (clearOldArrivals planet s) (timer old) = None
       \<and> planetArrivalIds (clearOldArrivals planet s) (locationId planet) = Some []
       \<and> pendingTimers s' (timer old) = None
       \<and> (\<forall>awt. arrivals s' arrivalId = Some awt \<longrightarrow> nextTimer s \<le> timer awt)
       \<and> (\<exists>ids. planetArrivalIds s' (locationId planet) = Some ids
              \<and> (\<forall>i \<in> set ids. \<exists>awt. arrivals s' i = Some awt \<and> nextTimer s \<le> timer awt))"
proof -
  have c1: "arrivals (clearOldArrivals planet s) arrivalId = None"
    using clearOldArrivals_arrivals[OF indexed, of arrivalId] member by simp
  have c2: "pendingTimers (clearOldArrivals planet s) (timer old) = None"
    by (rule clearOldArrivals_clears_timer[OF indexed member stored])
  have c3: "planetArrivalIds (clearOldArrivals planet s) (locationId planet) = Some []"
    by (simp add: clearOldArrivals_frame)
  define pc where "pc = planetToCommit ext (contractConstants s) (planets s (locationId planet))
                          (planetLocationMap s (locationId planet)) planet
                          updatedArtifactsOnPlanet revealedLocation claimerEthAddress"
  have pid: "locationId pc = locationId planet" by (simp add: pc_def planetToCommit_locationId)
  from replacePlanet_decompose[OF run] obtain s2 where
    f: "arrivals s2 = arrivals s" "planetArrivalIds s2 = planetArrivalIds s"
       "pendingTimers s2 = pendingTimers s" "nextTimer s2 = nextTimer s"
    and s': "s' = updateScore (locationId planet)
                   (case processArrivalsForPlanet ext now (locationId planet) updatedArrivals
                              (clearOldArrivals pc (setPlanet pc s2)) of
                         (updatedAwts, s'') \<Rightarrow> installArrivals (locationId planet) updatedAwts s'')"
    unfolding pc_def by auto
  define s3 where "s3 = setPlanet pc s2"
  have f3: "arrivals s3 = arrivals s" "planetArrivalIds s3 = planetArrivalIds s"
       "pendingTimers s3 = pendingTimers s" "nextTimer s3 = nextTimer s"
    by (simp_all add: s3_def setPlanet_schedule f)
  define sc where "sc = clearOldArrivals pc s3"
  have indexed3: "planetArrivalIds s3 (locationId pc) = Some oldIds" by (simp add: f3 pid indexed)
  have stored3: "arrivals s3 arrivalId = Some old" by (simp add: f3 stored)
  have sc1: "arrivals sc arrivalId = None"
    unfolding sc_def using clearOldArrivals_arrivals[OF indexed3, of arrivalId] member by simp
  have sc2: "pendingTimers sc (timer old) = None"
    unfolding sc_def by (rule clearOldArrivals_clears_timer[OF indexed3 member stored3])
  have sc3: "planetArrivalIds sc (locationId planet) = Some []"
    unfolding sc_def using clearOldArrivals_frame(6)[of pc s3] by (simp add: pid)
  have sc4: "nextTimer sc = nextTimer s" by (simp add: sc_def clearOldArrivals_frame f3)
  obtain awts sp where
    p: "processArrivalsForPlanet ext now (locationId planet) updatedArrivals sc = (awts, sp)"
    by (cases "processArrivalsForPlanet ext now (locationId planet) updatedArrivals sc") auto
  from processArrivalsForPlanet_schedule[OF p]
  have sp: "arrivals sp = arrivals sc" "planetArrivalIds sp = planetArrivalIds sc"
       "\<forall>h < nextTimer sc. pendingTimers sp h = pendingTimers sc h"
       "\<forall>awt \<in> set awts. nextTimer sc \<le> timer awt"
    by simp_all
  define si where "si = installArrivals (locationId planet) awts sp"
  have s'': "s' = updateScore (locationId planet) si"
    using s' p by (simp add: si_def sc_def s3_def)
  have old_lt: "timer old < nextTimer sc" using issued stored sc4 by simp
  have d1: "pendingTimers s' (timer old) = None"
    using sp(3) old_lt sc2 by (simp add: s'' updateScore_schedule si_def installArrivals_frame)
  have d2: "\<forall>awt. arrivals s' arrivalId = Some awt \<longrightarrow> nextTimer s \<le> timer awt"
  proof (intro allI impI)
    fix awt assume "arrivals s' arrivalId = Some awt"
    then have "arrivals si arrivalId = Some awt" by (simp add: s'' updateScore_schedule)
    from installArrivals_arrivals[OF this[unfolded si_def]]
    have "awt \<in> set awts \<or> arrivals sp arrivalId = Some awt" .
    then have "awt \<in> set awts" using sp(1) sc1 by simp
    with sp(4) sc4 show "nextTimer s \<le> timer awt" by auto
  qed
  have idx: "planetArrivalIds si (locationId planet)
               = Some ([] @ map (\<lambda>awt. eventId (arrivalData awt)) awts)"
    unfolding si_def by (rule installArrivals_index) (simp add: sp(2) sc3)
  have d3: "\<exists>ids. planetArrivalIds s' (locationId planet) = Some ids
              \<and> (\<forall>i \<in> set ids. \<exists>awt. arrivals s' i = Some awt \<and> nextTimer s \<le> timer awt)"
  proof -
    have ix: "planetArrivalIds s' (locationId planet) = Some (map (\<lambda>awt. eventId (arrivalData awt)) awts)"
      using idx by (simp add: s'' updateScore_schedule)
    have al: "\<forall>i \<in> set (map (\<lambda>awt. eventId (arrivalData awt)) awts).
                \<exists>awt. arrivals s' i = Some awt \<and> nextTimer s \<le> timer awt"
    proof
      fix i assume "i \<in> set (map (\<lambda>awt. eventId (arrivalData awt)) awts)"
      from installArrivals_installed[OF this, of "locationId planet" sp]
      obtain awt where a: "awt \<in> set awts" "arrivals si i = Some awt" unfolding si_def by blast
      from a(1) sp(4) sc4 have "nextTimer s \<le> timer awt" by auto
      with a(2) show "\<exists>awt. arrivals s' i = Some awt \<and> nextTimer s \<le> timer awt"
        by (auto simp: s'' updateScore_schedule)
    qed
    from ix al show ?thesis by blast
  qed
  from c1 c2 c3 d1 d2 d3 show ?thesis by blast
qed

text \<open>The arrival with event id 1 is scheduled with timer 0; the fresh list holds the
  same voyage, still in the future.\<close>
theorem fresh_arrivals_cancel_old_witness:
  "planetArrivalIds exampleStoreWithPlanet (locationId examplePlanet) = Some [''1'']
   \<and> arrivals exampleStoreWithPlanet ''1''
       = Some \<lparr>arrivalData = exampleArrival\<lparr>arrivalTime := 500\<rparr>, timer = 0\<rparr>
   \<and> pendingTimers exampleStoreWithPlanet 0 = Some (''0000a1'', exampleArrival\<lparr>arrivalTime := 500\<rparr>)
   \<and> pendingTimers (clearOldArrivals examplePlanet exampleStoreWithPlanet) 0 = None
   \<and> arrivals (clearOldArrivals examplePlanet exampleStoreWithPlanet) ''1'' = None
   \<and> (\<exists>s'. replacePlanetFromContractData exampleExternals 100000 examplePlanet
               (Some [exampleArrival\<lparr>arrivalTime := 500\<rparr>]) None None None exampleStoreWithPlanet = Inr s'
          \<and> pendingTimers s' 0 = None)"
proof -
  have h1: "\<forall>k awt. arrivals exampleStoreWithPlanet k = Some awt \<longrightarrow> timer awt < nextTimer exampleStoreWithPlanet"
    by (auto simp: exampleStoreWithPlanet_def split: if_splits)
  have h2: "planetArrivalIds exampleStoreWithPlanet (locationId examplePlanet) = Some [''1'']"
    by (simp add: exampleStoreWithPlanet_def examplePlanet_def)
  have h3: "''1'' \<in> set [''1'']" by simp
  have h4: "arrivals exampleStoreWithPlanet ''1''
       = Some \<lparr>arrivalData = exampleArrival\<lparr>arrivalTime := 500\<rparr>, timer = 0\<rparr>"
    by (simp add: exampleStoreWithPlanet_def)
  have h0: "pendingTimers exampleStoreWithPlanet 0 = Some (''0000a1'', exampleArrival\<lparr>arrivalTime := 500\<rparr>)"
    by (simp add: exampleStoreWithPlanet_def)
  obtain s' where h5: "replacePlanetFromContractData exampleExternals 100000 examplePlanet
               (Some [exampleArrival\<lparr>arrivalTime := 500\<rparr>]) None None None exampleStoreWithPlanet = Inr s'"
    using replacePlanet_returns by blast
  from fresh_arrivals_cancel_old[OF h1 h2 h3 h4 h5] h0 h2 h4 h5 show ?thesis by auto
qed

end
